theory Spec2Isabelle
  imports Main "HOL-Library.Word" "HOL-Library.Sublist" "HOL-Library.Monad_Syntax"
begin

section \<open>JavaScript values\<close>

text \<open>
  The values that reach the program are the ones Express puts into \<^verbatim>\<open>req.query\<close>
  (strings, arrays and plain objects, \<^verbatim>\<open>undefined\<close> for a parameter that is not
  given) and the ones \<^verbatim>\<open>JSON.parse\<close> returns. A string is a list of characters, one
  \<^typ>\<open>char\<close> for each code unit, the code units up to 255. An object is the list of its
  own properties, looked up with \<^const>\<open>map_of\<close>.

  The program does two things with a number: it tests it for truth and it prints it.
  \<open>JNum\<close> holds the integers from \<open>-2\<^sup>5\<^sup>3\<close> to \<open>2\<^sup>5\<^sup>3 - 1\<close>, which a number holds
  exactly and prints in full, as a word of 54 bits read in two's complement. Every other
  number (a fraction, an integer beyond that range, an infinity) is \<open>JReal\<close>, given by the
  text \<^verbatim>\<open>Number.prototype.toString\<close> prints for it: digits, a point, an exponent with its
  sign, or \<^verbatim>\<open>Infinity\<close>, with a sign. Such a number is not zero, and its text has a digit
  other than 0 or is an infinity.
\<close>

typedef number_text =
  "{s :: string. set s \<subseteq> set ''0123456789.e+-Infinity'' \<and> (\<exists>c \<in> set s. c \<in> set ''123456789I'')}"
  by (rule exI [of _ "''1''"]) simp

datatype jsval =
    JUndefined
  | JNull
  | JBool bool
  | JNum "54 word"
  | JReal number_text
  | JStr string
  | JArr "jsval list"
  | JObj "(string \<times> jsval) list"

text \<open>The conversion to a boolean that \<^verbatim>\<open>!x\<close>, \<^verbatim>\<open>x || y\<close> and \<^verbatim>\<open>x ? y : z\<close> apply.\<close>

fun truthy :: "jsval \<Rightarrow> bool" where
  "truthy JUndefined = False"
| "truthy JNull = False"
| "truthy (JBool b) = b"
| "truthy (JNum n) = (n \<noteq> 0)"
| "truthy (JReal t) = True"
| "truthy (JStr s) = (s \<noteq> [])"
| "truthy (JArr xs) = True"
| "truthy (JObj kvs) = True"

definition js_or :: "jsval \<Rightarrow> jsval \<Rightarrow> jsval" where
  "js_or a b = (if truthy a then a else b)"

text \<open>
  Reading a property \<^verbatim>\<open>v.k\<close>. On \<^verbatim>\<open>null\<close> and \<^verbatim>\<open>undefined\<close> it throws a TypeError
  (\<^const>\<open>None\<close>). The program reads only names that no prototype of a string, number,
  boolean, array or plain object defines, so that a value other than an object with that
  property of its own gives \<^verbatim>\<open>undefined\<close>.
\<close>

definition field :: "(string \<times> jsval) list \<Rightarrow> string \<Rightarrow> jsval" where
  "field kvs k = (case map_of kvs k of None \<Rightarrow> JUndefined | Some v \<Rightarrow> v)"

fun get_prop :: "jsval \<Rightarrow> string \<Rightarrow> jsval option" where
  "get_prop JUndefined k = None"
| "get_prop JNull k = None"
| "get_prop (JObj kvs) k = Some (field kvs k)"
| "get_prop v k = Some JUndefined"

section \<open>Numbers and strings\<close>

definition digit_char :: "nat \<Rightarrow> char" where
  "digit_char d = ''0123456789'' ! d"

function string_of_nat :: "nat \<Rightarrow> string" where
  "string_of_nat n =
     (if n < 10 then [digit_char n] else string_of_nat (n div 10) @ [digit_char (n mod 10)])"
  by pat_completeness auto
termination
  by (relation "measure id") auto

declare string_of_nat.simps [simp del]

definition number_toString :: "int \<Rightarrow> string" where
  "number_toString i =
     (if i < 0 then ''-'' @ string_of_nat (nat (- i)) else string_of_nat (nat i))"

text \<open>\<^verbatim>\<open>Array.prototype.join\<close> on an array of strings.\<close>

fun join :: "string \<Rightarrow> string list \<Rightarrow> string" where
  "join sep [] = []"
| "join sep [x] = x"
| "join sep (x # y # ys) = x @ sep @ join sep (y # ys)"

text \<open>Running computations that may throw, in order: the first exception ends the run.\<close>

fun sequence :: "'a option list \<Rightarrow> 'a list option" where
  "sequence [] = Some []"
| "sequence (x # xs) = do { y \<leftarrow> x; ys \<leftarrow> sequence xs; Some (y # ys) }"

text \<open>
  The conversion to a string of \<^verbatim>\<open>String(v)\<close> and of a template substitution. An array
  joins its elements with commas, \<^verbatim>\<open>null\<close> and \<^verbatim>\<open>undefined\<close> elements as the empty
  string. A plain object gives \<^verbatim>\<open>[object Object]\<close> through \<^verbatim>\<open>Object.prototype.toString\<close>,
  unless it has a property \<^verbatim>\<open>toString\<close> of its own, which is then not callable: the
  conversion throws a TypeError (\<^const>\<open>None\<close>).
\<close>

fun toString :: "jsval \<Rightarrow> string option" where
  "toString JUndefined = Some ''undefined''"
| "toString JNull = Some ''null''"
| "toString (JBool b) = Some (if b then ''true'' else ''false'')"
| "toString (JNum n) = Some (number_toString (sint n))"
| "toString (JReal t) = Some (Rep_number_text t)"
| "toString (JStr s) = Some s"
| "toString (JArr xs) =
     map_option (join '','')
       (sequence (map (\<lambda>x. if x = JNull \<or> x = JUndefined then Some [] else toString x) xs))"
| "toString (JObj kvs) =
     (if ''toString'' \<in> fst ` set kvs then None else Some ''[object Object]'')"

text \<open>
  \<^verbatim>\<open>parseInt(v)\<close> with no radix: the argument is converted to a string, leading white
  space and one sign are dropped, a prefix \<^verbatim>\<open>0x\<close> selects radix 16, and the longest run
  of digits is read. The inner \<^const>\<open>None\<close> is \<^verbatim>\<open>NaN\<close>. The white space and line
  terminators among the code units up to 255 are the tab, the line feed, the vertical tab,
  the form feed, the carriage return, the space and the no-break space.
\<close>

definition is_white_space :: "char \<Rightarrow> bool" where
  "is_white_space c = (of_char c \<in> {9, 10, 11, 12, 13, 32, 160 :: nat})"

definition digit_value :: "char \<Rightarrow> nat" where
  "digit_value c =
     (let n = of_char c :: nat in
      if 48 \<le> n \<and> n \<le> 57 then n - 48
      else if 97 \<le> n \<and> n \<le> 122 then n - 87
      else if 65 \<le> n \<and> n \<le> 90 then n - 55
      else 36)"

definition parseInt_text :: "string \<Rightarrow> int option" where
  "parseInt_text s =
     (let s1 = dropWhile is_white_space s;
          negative = (case s1 of c # r \<Rightarrow> c = CHR ''-'' | [] \<Rightarrow> False);
          s2 = (case s1 of c # r \<Rightarrow> if c = CHR ''-'' \<or> c = CHR ''+'' then r else s1 | [] \<Rightarrow> []);
          hex = (case s2 of a # b # r \<Rightarrow> a = CHR ''0'' \<and> (b = CHR ''x'' \<or> b = CHR ''X'') | _ \<Rightarrow> False);
          radix = (if hex then 16 else 10);
          s3 = (if hex then drop 2 s2 else s2);
          ds = takeWhile (\<lambda>c. digit_value c < radix) s3;
          magnitude = foldl (\<lambda>acc c. acc * radix + digit_value c) 0 ds
      in if ds = [] then None
         else Some (if negative then - int magnitude else int magnitude))"

definition parseInt :: "jsval \<Rightarrow> int option option" where
  "parseInt v = map_option parseInt_text (toString v)"

text \<open>
  \<^verbatim>\<open>String.prototype.toUpperCase\<close> on the code units up to 255: the letters a to z and
  the small letters from U+00E0 to U+00FE, the division sign U+00F7 apart, move down by 32,
  and the sharp s U+00DF becomes \<^verbatim>\<open>SS\<close>. The upper case of the micro sign U+00B5 and of
  U+00FF lies beyond 255, outside the strings of this model, which keeps the two as they are.
\<close>

definition upper_char :: "char \<Rightarrow> string" where
  "upper_char c =
     (let n = of_char c :: nat in
      if 97 \<le> n \<and> n \<le> 122 then [char_of (n - 32)]
      else if n = 223 then ''SS''
      else if 224 \<le> n \<and> n \<le> 254 \<and> n \<noteq> 247 then [char_of (n - 32)]
      else [c])"

definition toUpperCase :: "string \<Rightarrow> string" where
  "toUpperCase s = concat (map upper_char s)"

text \<open>The character class \<^verbatim>\<open>[a-zA-Z0-9]\<close>.\<close>

definition is_alphanumeric :: "char \<Rightarrow> bool" where
  "is_alphanumeric c =
     (let n = of_char c :: nat in
      (97 \<le> n \<and> n \<le> 122) \<or> (65 \<le> n \<and> n \<le> 90) \<or> (48 \<le> n \<and> n \<le> 57))"

text \<open>\<^verbatim>\<open>s.replace(/c/g, r)\<close> for a single character \<^verbatim>\<open>c\<close>.\<close>

definition replace_all :: "char \<Rightarrow> string \<Rightarrow> string \<Rightarrow> string" where
  "replace_all c r s = concat (map (\<lambda>x. if x = c then r else [x]) s)"

section \<open>The clock\<close>

text \<open>
  \<^verbatim>\<open>new Date()\<close> reads the clock of the process; the value is the local time.
  \<^verbatim>\<open>toLocaleDateString('en-US', {year: 'numeric', month: 'short', day: 'numeric'})\<close>
  prints its calendar day, as in \<^verbatim>\<open>Nov 2, 2026\<close>.
\<close>

datatype month = Jan | Feb | Mar | Apr | May | Jun | Jul | Aug | Sep | Oct | Nov | Dec

record js_date =
  year :: nat
  month :: month
  day :: nat
  hours :: nat
  minutes :: nat
  seconds :: nat

fun month_short :: "month \<Rightarrow> string" where
  "month_short Jan = ''Jan''"
| "month_short Feb = ''Feb''"
| "month_short Mar = ''Mar''"
| "month_short Apr = ''Apr''"
| "month_short May = ''May''"
| "month_short Jun = ''Jun''"
| "month_short Jul = ''Jul''"
| "month_short Aug = ''Aug''"
| "month_short Sep = ''Sep''"
| "month_short Oct = ''Oct''"
| "month_short Nov = ''Nov''"
| "month_short Dec = ''Dec''"

definition toLocaleDateString :: "js_date \<Rightarrow> string" where
  "toLocaleDateString d =
     concat [month_short (month d), '' '', string_of_nat (day d), '', '', string_of_nat (year d)]"

section \<open>Requests and responses\<close>

text \<open>
  A query parameter that the handler decodes and parses as JSON is given by what
  \<^verbatim>\<open>JSON.parse(decodeURIComponent(p))\<close> does on it: \<open>Absent\<close> when the parameter is
  missing or empty (the test \<^verbatim>\<open>if (req.query.p)\<close> fails), \<open>Malformed\<close> when decoding or
  parsing throws, \<open>Parsed v\<close> when it returns \<open>v\<close>.
\<close>

datatype json_param = Absent | Malformed | Parsed jsval

record request =
  orderId :: jsval
  orderName :: jsval
  labelCount :: jsval
  shippingAddress_param :: json_param
  lineItems_param :: json_param

record order =
  order_id :: jsval
  order_name :: jsval
  shippingAddress :: jsval
  lineItems :: jsval

record response =
  status :: nat
  headers :: "(string \<times> string) list"
  body :: string

text \<open>
  What a run of the handler leaves: the lines written with \<^verbatim>\<open>console.error\<close> and the
  response sent, \<^const>\<open>None\<close> when the handler threw before \<^verbatim>\<open>res.send\<close>. Express
  answers a request whose handler threw with status 500.
\<close>

record outcome =
  console :: "string list"
  reply :: "response option"

definition http_status :: "outcome \<Rightarrow> nat" where
  "http_status out = (case reply out of None \<Rightarrow> 500 | Some r \<Rightarrow> status r)"

text \<open>
  The \<^verbatim>\<open>try\<close> block of the handler, the same in both servers: the two assignments run
  in order and the first exception ends the block, leaving the variables as they are.
\<close>

definition parse_query :: "request \<Rightarrow> string list \<times> jsval \<times> jsval" where
  "parse_query req =
     (let shippingAddress0 = JObj []; lineItems0 = JArr [] in
      case (case shippingAddress_param req of
              Absent \<Rightarrow> Some shippingAddress0 | Malformed \<Rightarrow> None | Parsed v \<Rightarrow> Some v) of
        None \<Rightarrow> ([''Error parsing query params:''], shippingAddress0, lineItems0)
      | Some shippingAddress1 \<Rightarrow>
          (case (case lineItems_param req of
                   Absent \<Rightarrow> Some lineItems0 | Malformed \<Rightarrow> None | Parsed v \<Rightarrow> Some v) of
             None \<Rightarrow> ([''Error parsing query params:''], shippingAddress1, lineItems0)
           | Some lineItems1 \<Rightarrow> ([], shippingAddress1, lineItems1)))"

definition build_order :: "request \<Rightarrow> order" where
  "build_order req =
     (case parse_query req of (logged, shippingAddress1, lineItems1) \<Rightarrow>
        \<lparr>order_id = orderId req,
         order_name = js_or (orderName req) (JStr ''Order''),
         shippingAddress = shippingAddress1,
         lineItems = lineItems1\<rparr>)"

section \<open>Escaping\<close>

definition escape_text :: "string \<Rightarrow> string" where
  \<open>escape_text s =
     replace_all (CHR 0x27) ''&#039;''
       (replace_all (CHR 0x22) ''&quot;''
         (replace_all CHR ''>'' ''&gt;''
           (replace_all CHR ''<'' ''&lt;''
             (replace_all CHR ''&'' ''&amp;'' s))))\<close>

definition escapeHtml :: "jsval \<Rightarrow> string option" where
  "escapeHtml text =
     (if \<not> truthy text then Some [] else map_option escape_text (toString text))"

text \<open>What escaping does to one character: the entity of the five special ones.\<close>

definition entity :: "char \<Rightarrow> string" where
  \<open>entity c =
     (if c = CHR ''&'' then ''&amp;''
      else if c = CHR ''<'' then ''&lt;''
      else if c = CHR ''>'' then ''&gt;''
      else if c = CHR 0x22 then ''&quot;''
      else if c = CHR 0x27 then ''&#039;''
      else [c])\<close>

definition special_chars :: "char list" where
  \<open>special_chars = [CHR ''&'', CHR ''<'', CHR ''>'', CHR 0x22, CHR 0x27]\<close>

section \<open>The generic label server\<close>

subsection \<open>Barcode\<close>

definition rect :: "nat \<Rightarrow> nat \<Rightarrow> string" where
  \<open>rect x width = concat
      [''<rect x="'',
       string_of_nat x,
       ''" y="5" width="'',
       string_of_nat width,
       ''" height="30" fill="black"/>'']\<close>

text \<open>The \<^verbatim>\<open>forEach\<close> loop: the state is the cursor \<open>x\<close> and the lines pushed so far.\<close>

fun barcode_loop :: "nat \<Rightarrow> string list \<Rightarrow> string \<Rightarrow> nat \<times> string list" where
  "barcode_loop x lines [] = (x, lines)"
| "barcode_loop x lines (char # chars) =
     (let width = of_char char mod 3 + 1
      in barcode_loop (x + (width + 2)) (lines @ [rect x width]) chars)"

definition generateBarcodeLines :: "jsval \<Rightarrow> string option" where
  "generateBarcodeLines text =
     (if \<not> truthy text then Some []
      else case text of
        JStr s \<Rightarrow> Some (concat (snd (barcode_loop 10 [] (filter is_alphanumeric s))))
      | _ \<Rightarrow> None)"

text \<open>
  The barcode as the specification words it: one bar for each alphanumeric character, of
  width \<open>(charCode mod 3) + 1\<close>, the first at \<open>x = 10\<close> and each next one \<open>width + 2\<close>
  further to the right.
\<close>

definition bar_width :: "char \<Rightarrow> nat" where
  "bar_width c = of_char c mod 3 + 1"

definition bars_spec :: "string \<Rightarrow> (nat \<times> nat) list" where
  "bars_spec name =
     (let cs = filter is_alphanumeric name
      in map (\<lambda>k. (10 + (\<Sum>j<k. (bar_width (cs ! j) + 2)), bar_width (cs ! k))) [0..<length cs])"

subsection \<open>Line items\<close>

definition row_html :: "string \<Rightarrow> string \<Rightarrow> string" where
  \<open>row_html qty title = concat
        [''\<newline>'',
         ''    <div class="item-row">\<newline>'',
         ''      <span class="item-qty">'',
         qty,
         ''x</span>\<newline>'',
         ''      <span class="item-name">'',
         title,
         ''</span>\<newline>'',
         ''    </div>\<newline>'',
         ''  '']\<close>

text \<open>\<^verbatim>\<open>${item.quantity || 1}\<close> and \<^verbatim>\<open>${escapeHtml(item.title || item.name || 'Item')}\<close>.\<close>

definition item_quantity :: "jsval \<Rightarrow> string option" where
  "item_quantity item = do {
     quantity \<leftarrow> get_prop item ''quantity'';
     toString (js_or quantity (JNum 1))
   }"

definition item_title :: "jsval \<Rightarrow> string option" where
  "item_title item = do {
     title1 \<leftarrow> get_prop item ''title'';
     name1 \<leftarrow> get_prop item ''name'';
     escapeHtml (js_or title1 (js_or name1 (JStr ''Item'')))
   }"

definition item_row :: "jsval \<Rightarrow> string option" where
  "item_row item = do {
     qty \<leftarrow> item_quantity item;
     title \<leftarrow> item_title item;
     Some (row_html qty title)
   }"

text \<open>
  \<^verbatim>\<open>lineItems.slice(0, 5).map(...).join('')\<close>: a value that is not an array has no
  \<^verbatim>\<open>slice(...).map\<close> to call, a TypeError.
\<close>

definition itemsHtml_of :: "jsval \<Rightarrow> string option" where
  "itemsHtml_of items =
     (case items of
        JArr xs \<Rightarrow> map_option concat (sequence (map item_row (take 5 xs)))
      | _ \<Rightarrow> None)"

definition moreItemsHtml_of :: "jsval list \<Rightarrow> string" where
  \<open>moreItemsHtml_of xs =
     (let moreItemsCount = int (length xs) - 5
      in if moreItemsCount > 0
         then concat [''<div class="more-items">+ '',
               number_toString moreItemsCount,
               '' more items</div>'']
         else [])\<close>

subsection \<open>The label\<close>

text \<open>The three optional lines \<^verbatim>\<open>v ? `<div ...>${escapeHtml(v)}</div>` : ''\<close>.\<close>

definition optional_div :: "string \<Rightarrow> jsval \<Rightarrow> string option" where
  \<open>optional_div opening v =
     (if truthy v then map_option (\<lambda>e. concat [opening, e, ''</div>'']) (escapeHtml v)
      else Some [])\<close>

text \<open>
  The template of one label. Its substitutions are markup made before: escaped text, the
  optional lines, the item rows and the barcode; the date is plain text.
\<close>

type_synonym html = string

definition label_html ::
  "html \<Rightarrow> string \<Rightarrow> html \<Rightarrow> html \<Rightarrow> html \<Rightarrow> html \<Rightarrow> html \<Rightarrow> html \<Rightarrow> html
   \<Rightarrow> html \<Rightarrow> html \<Rightarrow> html \<Rightarrow> html \<Rightarrow> html \<Rightarrow> html \<Rightarrow> html" where
  \<open>label_html orderNumber formattedDate recipient company address1 address2 city province
      zipCode country phone itemsHtml moreItemsHtml barcode barcodeText = concat
        [''\<newline>'',
         ''    <div class="label">\<newline>'',
         ''      <!-- Header with Logo/Company -->\<newline>'',
         ''      <div class="header">\<newline>'',
         ''        <div class="company-name">SHIP TO</div>\<newline>'',
         ''        <div class="order-info">\<newline>'',
         ''          <div class="order-number">'',
         orderNumber,
         ''</div>\<newline>'',
         ''          <div class="order-date">'',
         formattedDate,
         ''</div>\<newline>'',
         ''        </div>\<newline>'',
         ''      </div>\<newline>'',
         ''\<newline>'',
         ''      <!-- Main Shipping Address -->\<newline>'',
         ''      <div class="address-block">\<newline>'',
         ''        <div class="recipient-name">'',
         recipient,
         ''</div>\<newline>'',
         ''        '',
         company,
         ''\<newline>'',
         ''        <div class="street">'',
         address1,
         ''</div>\<newline>'',
         ''        '',
         address2,
         ''\<newline>'',
         ''        <div class="city-state-zip">\<newline>'',
         ''          '',
         city,
         '', '',
         province,
         '' '',
         zipCode,
         ''\<newline>'',
         ''        </div>\<newline>'',
         ''        <div class="country">'',
         country,
         ''</div>\<newline>'',
         ''        '',
         phone,
         ''\<newline>'',
         ''      </div>\<newline>'',
         ''\<newline>'',
         ''      <!-- Divider -->\<newline>'',
         ''      <div class="divider"></div>\<newline>'',
         ''\<newline>'',
         ''      <!-- Package Contents Summary -->\<newline>'',
         ''      <div class="contents-section">\<newline>'',
         ''        <div class="contents-title">PACKAGE CONTENTS</div>\<newline>'',
         ''        <div class="items-list">\<newline>'',
         ''          '',
         itemsHtml,
         ''\<newline>'',
         ''          '',
         moreItemsHtml,
         ''\<newline>'',
         ''        </div>\<newline>'',
         ''      </div>\<newline>'',
         ''\<newline>'',
         ''      <!-- Footer with Barcode placeholder -->\<newline>'',
         ''      <div class="footer">\<newline>'',
         ''        <div class="barcode-area">\<newline>'',
         ''          <svg class="barcode-placeholder" viewBox="0 0 200 40">\<newline>'',
         ''            '',
         barcode,
         ''\<newline>'',
         ''          </svg>\<newline>'',
         ''          <div class="barcode-text">'',
         barcodeText,
         ''</div>\<newline>'',
         ''        </div>\<newline>'',
         ''      </div>\<newline>'',
         ''    </div>\<newline>'',
         ''  '']\<close>

text \<open>The substitutions of the label template, evaluated in the order of the template.\<close>

definition label_block :: "order \<Rightarrow> jsval \<Rightarrow> string \<Rightarrow> string \<Rightarrow> string \<Rightarrow> string option" where
  \<open>label_block order shippingAddress1 formattedDate itemsHtml moreItemsHtml = do {
     orderNumber \<leftarrow> escapeHtml (order_name order);
     name1 \<leftarrow> get_prop shippingAddress1 ''name'';
     recipient \<leftarrow> escapeHtml (js_or name1 (JStr ''N/A''));
     company1 \<leftarrow> get_prop shippingAddress1 ''company'';
     company \<leftarrow> optional_div ''<div class="company">'' company1;
     street1 \<leftarrow> get_prop shippingAddress1 ''address1'';
     address1 \<leftarrow> escapeHtml (js_or street1 (JStr []));
     street2 \<leftarrow> get_prop shippingAddress1 ''address2'';
     address2 \<leftarrow> optional_div ''<div class="street">'' street2;
     city1 \<leftarrow> get_prop shippingAddress1 ''city'';
     city \<leftarrow> escapeHtml (js_or city1 (JStr []));
     provinceCode1 \<leftarrow> get_prop shippingAddress1 ''provinceCode'';
     province1 \<leftarrow> get_prop shippingAddress1 ''province'';
     province \<leftarrow> escapeHtml (js_or provinceCode1 (js_or province1 (JStr [])));
     zip1 \<leftarrow> get_prop shippingAddress1 ''zip'';
     zipCode \<leftarrow> escapeHtml (js_or zip1 (JStr []));
     country1 \<leftarrow> get_prop shippingAddress1 ''country'';
     country \<leftarrow> escapeHtml (js_or country1 (JStr []));
     phone1 \<leftarrow> get_prop shippingAddress1 ''phone'';
     phone \<leftarrow> optional_div ''<div class="phone">Tel: '' phone1;
     barcode \<leftarrow> generateBarcodeLines (order_name order);
     barcodeText \<leftarrow> escapeHtml (order_name order);
     Some (label_html orderNumber formattedDate recipient company address1 address2 city province
             zipCode country phone itemsHtml moreItemsHtml barcode barcodeText)
   }\<close>

subsection \<open>The document\<close>

definition document_head :: "string list" where
  \<open>document_head =
    [''<!DOCTYPE html>\<newline>'',
     ''<html lang="en">\<newline>'',
     ''<head>\<newline>'',
     ''  <meta charset="UTF-8">\<newline>'',
     ''  <meta name="viewport" content="width=device-width, initial-scale=1.0">\<newline>'',
     ''  <title>Shipping Label - '']\<close>

definition document_style_A :: "string list" where
  \<open>document_style_A =
    [''</title>\<newline>'',
     ''  <style>\<newline>'',
     ''    @page {\<newline>'',
     ''      size: 4in 6in;\<newline>'',
     ''      margin: 0;\<newline>'',
     ''    }\<newline>'',
     ''\<newline>'',
     ''    * {\<newline>'',
     ''      box-sizing: border-box;\<newline>'',
     ''      margin: 0;\<newline>'',
     ''      padding: 0;\<newline>'',
     ''    }\<newline>'',
     ''\<newline>'',
     ''    body {\<newline>'',
     ''      font-family: 'Arial', 'Helvetica', sans-serif;\<newline>'',
     ''      font-size: 12px;\<newline>'',
     ''      line-height: 1.3;\<newline>'',
     ''      color: #000;\<newline>'',
     ''      background: #fff;\<newline>'',
     ''    }\<newline>'',
     ''\<newline>'',
     ''    .label {\<newline>'',
     ''      width: 4in;\<newline>'',
     ''      height: 6in;\<newline>'',
     ''      padding: 0.2in;\<newline>'',
     ''      display: flex;\<newline>'',
     ''      flex-direction: column;\<newline>'',
     ''      page-break-after: always;\<newline>'',
     ''      background: #fff;\<newline>'',
     ''    }\<newline>'',
     ''\<newline>'',
     ''    .page-break {\<newline>'',
     ''      page-break-after: always;\<newline>'',
     ''      height: 0;\<newline>'',
     ''    }\<newline>'',
     ''\<newline>'',
     ''    /* Header */\<newline>'',
     ''    .header {\<newline>'',
     ''      display: flex;\<newline>'',
     ''      justify-content: space-between;\<newline>'',
     ''      align-items: flex-start;\<newline>'',
     ''      padding-bottom: 0.15in;\<newline>'',
     ''      border-bottom: 2px solid #000;\<newline>'',
     ''      margin-bottom: 0.15in;\<newline>'',
     ''    }\<newline>'',
     ''\<newline>'',
     ''    .company-name {\<newline>'',
     ''      font-size: 14px;\<newline>'',
     ''      font-weight: bold;\<newline>'',
     ''      letter-spacing: 1px;\<newline>'',
     ''    }\<newline>'',
     ''\<newline>'',
     ''    .order-info {\<newline>'',
     ''      text-align: right;\<newline>'',
     ''    }\<newline>'',
     ''\<newline>'',
     ''    .order-number {\<newline>'',
     ''      font-size: 16px;\<newline>'',
     ''      font-weight: bold;\<newline>'',
     ''    }\<newline>'',
     ''\<newline>'',
     ''    .order-date {\<newline>'',
     ''      font-size: 10px;\<newline>'',
     ''      color: #333;\<newline>'',
     ''    }\<newline>'',
     ''\<newline>'',
     ''    /* Address Block */\<newline>'',
     ''    .address-block {\<newline>'',
     ''      flex: 1;\<newline>'',
     ''      padding: 0.1in 0;\<newline>'',
     ''    }\<newline>'',
     ''\<newline>'',
     ''    .recipient-name {\<newline>'',
     ''      font-size: 18px;\<newline>'',
     ''      font-weight: bold;\<newline>'',
     ''      margin-bottom: 4px;\<newline>'',
     ''      text-transform: uppercase;\<newline>'',
     ''    }\<newline>'',
     ''\<newline>'',
     ''    .company {\<newline>'',
     ''      font-size: 14px;\<newline>'',
     ''      margin-bottom: 2px;\<newline>'',
     ''    }\<newline>'',
     ''\<newline>'',
     ''    .street {\<newline>'',
     ''      font-size: 14px;\<newline>'',
     ''      margin-bottom: 2px;\<newline>'',
     ''    }\<newline>'',
     ''\<newline>'',
     ''    .city-state-zip {\<newline>'',
     ''      font-size: 14px;\<newline>'',
     ''      font-weight: bold;\<newline>'',
     ''      margin-bottom: 2px;\<newline>'',
     ''    }\<newline>'',
     ''\<newline>'',
     ''    .country {\<newline>'',
     ''      font-size: 12px;\<newline>'',
     ''      margin-bottom: 4px;\<newline>'',
     ''    }\<newline>'',
     ''\<newline>'',
     ''    .phone {\<newline>'',
     ''      font-size: 11px;\<newline>'',
     ''      color: #333;\<newline>'',
     ''    }\<newline>'',
     ''\<newline>'',
     ''    /* Divider */\<newline>'',
     ''    .divider {\<newline>'',
     ''      height: 1px;\<newline>'',
     ''      background: #ccc;\<newline>'',
     ''      margin: 0.1in 0;\<newline>'',
     ''    }\<newline>'',
     ''\<newline>'',
     ''    /* Contents Section */\<newline>'',
     ''    .contents-section {\<newline>'',
     ''      padding: 0.1in 0;\<newline>'',
     ''      max-height: 1.5in;\<newline>'',
     ''      overflow: hidden;\<newline>'',
     ''    }\<newline>'',
     ''\<newline>'',
     ''    .contents-title {\<newline>'',
     ''      font-size: 10px;\<newline>'',
     ''      font-weight: bold;\<newline>'',
     ''      letter-spacing: 0.5px;\<newline>'',
     ''      margin-bottom: 4px;\<newline>'',
     ''      color: #666;\<newline>'',
     ''    }\<newline>'',
     ''\<newline>'',
     ''    .items-list {\<newline>'',
     ''      font-size: 10px;\<newline>'',
     ''    }\<newline>'',
     ''\<newline>'',
     ''    .item-row {\<newline>'',
     ''      display: flex;\<newline>'',
     ''      gap: 4px;\<newline>'',
     ''      margin-bottom: 2px;\<newline>'',
     ''    }\<newline>'',
     ''\<newline>'',
     ''    .item-qty {\<newline>'',
     ''      font-weight: bold;\<newline>'',
     ''      min-width: 25px;\<newline>'',
     ''    }\<newline>'',
     ''\<newline>'',
     ''    .item-name {\<newline>'',
     ''      flex: 1;\<newline>'',
     ''      white-space: nowrap;\<newline>'',
     ''      overflow: hidden;\<newline>'',
     ''      text-overflow: ellipsis;\<newline>'',
     ''    }\<newline>'',
     ''\<newline>'',
     ''    .more-items {\<newline>'',
     ''      font-style: italic;\<newline>'',
     ''      color: #666;\<newline>'',
     ''      margin-top: 4px;\<newline>'',
     ''    }\<newline>'',
     ''\<newline>'',
     ''    /* Footer */\<newline>'',
     ''    .footer {\<newline>'',
     ''      margin-top: auto;\<newline>'',
     ''      padding-top: 0.1in;\<newline>'',
     ''      border-top: 1px solid #ccc;\<newline>'',
     ''    }\<newline>'',
     ''\<newline>'',
     ''    .barcode-area {\<newline>'',
     ''      text-align: center;\<newline>'',
     ''    }\<newline>'',
     ''\<newline>'',
     ''    .barcode-placeholder {\<newline>'',
     ''      width: 100%;\<newline>'',
     ''      max-width: 200px;\<newline>'',
     ''      height: 40px;\<newline>'',
     ''    }\<newline>'',
     ''\<newline>'',
     ''    .barcode-text {\<newline>'',
     ''      font-size: 10px;\<newline>'',
     ''      font-family: monospace;\<newline>'',
     ''      margin-top: 2px;\<newline>'',
     ''    }\<newline>'',
     ''\<newline>'',
     ''    /* Print-specific styles */\<newline>'',
     ''    @media print {\<newline>'',
     ''      body {\<newline>'',
     ''        -webkit-print-color-adjust: exact;\<newline>'',
     ''        print-color-adjust: exact;\<newline>'',
     ''      }\<newline>'',
     ''      \<newline>'',
     ''      .label {\<newline>'',
     ''        page-break-inside: avoid;\<newline>'',
     ''      }\<newline>'',
     ''    }\<newline>'',
     ''  </style>\<newline>'',
     ''</head>\<newline>'',
     ''<body>\<newline>'',
     ''  '']\<close>

definition document_tail :: "string list" where
  \<open>document_tail =
    [''\<newline>'',
     ''</body>\<newline>'',
     ''</html>'']\<close>

text \<open>
  \<^verbatim>\<open>Array(copies)\<close> throws a RangeError unless \<open>copies\<close> is an array length, an integer
  from 0 to \<open>2\<^sup>3\<^sup>2 - 1\<close>.
\<close>

definition Array_of :: "int \<Rightarrow> unit list option" where
  "Array_of n = (if 0 \<le> n \<and> n < 2 ^ 32 then Some (replicate (nat n) ()) else None)"

definition page_break :: string where
  \<open>page_break = ''<div class="page-break"></div>''\<close>

definition document_A :: "html \<Rightarrow> html \<Rightarrow> html" where
  "document_A title labelsHtml =
     concat (document_head @ [title] @ document_style_A @ [labelsHtml] @ document_tail)"

definition generateThermalLabelHtml_A :: "js_date \<Rightarrow> order \<Rightarrow> int \<Rightarrow> string option" where
  "generateThermalLabelHtml_A now order copies = do {
     let shippingAddress1 = js_or (shippingAddress order) (JObj []);
     let lineItems1 = js_or (lineItems order) (JArr []);
     let formattedDate = toLocaleDateString now;
     itemsHtml \<leftarrow> itemsHtml_of lineItems1;
     let moreItemsHtml = (case lineItems1 of JArr xs \<Rightarrow> moreItemsHtml_of xs | _ \<Rightarrow> []);
     slots \<leftarrow> Array_of copies;
     labels \<leftarrow> sequence
       (map (\<lambda>slot. label_block order shippingAddress1 formattedDate itemsHtml moreItemsHtml) slots);
     let labelsHtml = join page_break labels;
     title \<leftarrow> escapeHtml (order_name order);
     Some (document_A title labelsHtml)
   }"

subsection \<open>The handler of \<^verbatim>\<open>GET /print\<close>\<close>

text \<open>
  \<^verbatim>\<open>labelCount = 1\<close> in the destructuring gives the number 1 to a parameter that is not
  given; \<^verbatim>\<open>parseInt(labelCount) || 1\<close> replaces \<^verbatim>\<open>NaN\<close> and 0 by 1.
\<close>

definition copies_of :: "jsval \<Rightarrow> int option" where
  "copies_of count =
     map_option (\<lambda>n. case n of None \<Rightarrow> 1 | Some k \<Rightarrow> if k = 0 then 1 else k)
       (parseInt (case count of JUndefined \<Rightarrow> JNum 1 | v \<Rightarrow> v))"

definition send_html :: "string \<Rightarrow> response" where
  "send_html html =
     \<lparr>status = 200,
      headers = [(''Content-Type'', ''text/html''), (''Access-Control-Allow-Origin'', ''*'')],
      body = html\<rparr>"

definition print_A :: "js_date \<Rightarrow> request \<Rightarrow> outcome" where
  "print_A now req =
     \<lparr>console = fst (parse_query req),
      reply = do {
        copies \<leftarrow> copies_of (labelCount req);
        html \<leftarrow> generateThermalLabelHtml_A now (build_order req) copies;
        Some (send_html html)
      }\<rparr>"

text \<open>
  The request of the example,
  \<^verbatim>\<open>GET /print?orderName=%231001&labelCount=2&shippingAddress=%7B%22name%22%3A%22Jane%20Doe%22%2C%22city%22%3A%22Ottawa%22%7D\<close>.
  Express decodes the query string: \<^verbatim>\<open>orderName\<close> is \<^verbatim>\<open>#1001\<close>, \<^verbatim>\<open>labelCount\<close> is
  \<^verbatim>\<open>2\<close>, and \<^verbatim>\<open>shippingAddress\<close> is the text \<^verbatim>\<open>{"name":"Jane Doe","city":"Ottawa"}\<close>,
  which \<^verbatim>\<open>decodeURIComponent\<close> leaves as it is and \<^verbatim>\<open>JSON.parse\<close> reads as an object.
\<close>

definition example_request :: request where
  "example_request =
     \<lparr>orderId = JUndefined, orderName = JStr ''#1001'', labelCount = JStr ''2'',
      shippingAddress_param = Parsed (JObj [(''name'', JStr ''Jane Doe''), (''city'', JStr ''Ottawa'')]),
      lineItems_param = Absent\<rparr>"

section \<open>The branded label server\<close>

text \<open>\<^verbatim>\<open>name.split(' ')[0]\<close>: the text before the first space.\<close>

definition first_word :: "string \<Rightarrow> string" where
  "first_word s = takeWhile (\<lambda>c. c \<noteq> CHR '' '') s"

text \<open>
  \<^verbatim>\<open>shippingAddress.firstName || (shippingAddress.name ? shippingAddress.name.split(' ')[0] : 'Customer')\<close>:
  only a string has \<^verbatim>\<open>split\<close>, any other truthy name is a TypeError.
\<close>

definition firstName_of :: "jsval \<Rightarrow> jsval option" where
  "firstName_of shippingAddress1 = do {
     firstName1 \<leftarrow> get_prop shippingAddress1 ''firstName'';
     if truthy firstName1 then Some firstName1
     else do {
       name1 \<leftarrow> get_prop shippingAddress1 ''name'';
       if truthy name1
       then (case name1 of JStr s \<Rightarrow> Some (JStr (first_word s)) | _ \<Rightarrow> None)
       else Some (JStr ''Customer'')
     }
   }"

text \<open>\<^verbatim>\<open>firstName.toUpperCase()\<close>: only a string has the method.\<close>

definition call_toUpperCase :: "jsval \<Rightarrow> jsval option" where
  "call_toUpperCase v = (case v of JStr s \<Rightarrow> Some (JStr (toUpperCase s)) | _ \<Rightarrow> None)"

definition document_style_B :: "string list" where
  \<open>document_style_B =
    [''</title>\<newline>'',
     ''  <style>\<newline>'',
     ''    @page {\<newline>'',
     ''      size: 4in 6in;\<newline>'',
     ''      margin: 0;\<newline>'',
     ''    }\<newline>'',
     ''\<newline>'',
     ''    * {\<newline>'',
     ''      box-sizing: border-box;\<newline>'',
     ''      margin: 0;\<newline>'',
     ''      padding: 0;\<newline>'',
     ''    }\<newline>'',
     ''\<newline>'',
     ''    body {\<newline>'',
     ''      font-family: 'Arial', 'Helvetica', sans-serif;\<newline>'',
     ''      background: #fff;\<newline>'',
     ''    }\<newline>'',
     ''\<newline>'',
     ''    .label {\<newline>'',
     ''      width: 4in;\<newline>'',
     ''      height: 6in;\<newline>'',
     ''      padding: 0.3in 0.25in;\<newline>'',
     ''      background: #fff;\<newline>'',
     ''      display: flex;\<newline>'',
     ''      flex-direction: column;\<newline>'',
     ''      align-items: center;\<newline>'',
     ''    }\<newline>'',
     ''\<newline>'',
     ''    /* Top line decoration */\<newline>'',
     ''    .top-line {\<newline>'',
     ''      width: 60px;\<newline>'',
     ''      height: 4px;\<newline>'',
     ''      background: #000;\<newline>'',
     ''      margin-bottom: 0.2in;\<newline>'',
     ''    }\<newline>'',
     ''\<newline>'',
     ''    /* Thank you section */\<newline>'',
     ''    .thank-you {\<newline>'',
     ''      text-align: center;\<newline>'',
     ''      margin-bottom: 0.35in;\<newline>'',
     ''    }\<newline>'',
     ''\<newline>'',
     ''    .thank-you-text {\<newline>'',
     ''      font-size: 16px;\<newline>'',
     ''      letter-spacing: 4px;\<newline>'',
     ''      font-weight: 400;\<newline>'',
     ''      margin-bottom: 2px;\<newline>'',
     ''    }\<newline>'',
     ''\<newline>'',
     ''    .customer-name {\<newline>'',
     ''      font-size: 22px;\<newline>'',
     ''      letter-spacing: 4px;\<newline>'',
     ''      font-weight: 400;\<newline>'',
     ''    }\<newline>'',
     ''\<newline>'',
     ''    /* Logo section */\<newline>'',
     ''    .logo-section {\<newline>'',
     ''      display: flex;\<newline>'',
     ''      flex-direction: column;\<newline>'',
     ''      align-items: center;\<newline>'',
     ''      flex: 1;\<newline>'',
     ''      justify-content: center;\<newline>'',
     ''    }\<newline>'',
     ''\<newline>'',
     ''    .logo {\<newline>'',
     ''      width: 120px;\<newline>'',
     ''      height: 120px;\<newline>'',
     ''      margin-bottom: 0.15in;\<newline>'',
     ''    }\<newline>'',
     ''\<newline>'',
     ''    .brand-name {\<newline>'',
     ''      font-size: 36px;\<newline>'',
     ''      font-weight: bold;\<newline>'',
     ''      letter-spacing: 1px;\<newline>'',
     ''    }\<newline>'',
     ''\<newline>'',
     ''    /* Order info */\<newline>'',
     ''    .order-info {\<newline>'',
     ''      display: flex;\<newline>'',
     ''      justify-content: space-between;\<newline>'',
     ''      width: 100%;\<newline>'',
     ''      margin-top: auto;\<newline>'',
     ''      margin-bottom: 0.25in;\<newline>'',
     ''      font-size: 14px;\<newline>'',
     ''    }\<newline>'',
     ''\<newline>'',
     ''    .date {\<newline>'',
     ''      font-weight: 400;\<newline>'',
     ''    }\<newline>'',
     ''\<newline>'',
     ''    .order-number {\<newline>'',
     ''      font-weight: 400;\<newline>'',
     ''    }\<newline>'',
     ''\<newline>'',
     ''    /* Footer */\<newline>'',
     ''    .footer {\<newline>'',
     ''      display: flex;\<newline>'',
     ''      justify-content: center;\<newline>'',
     ''      gap: 0.25in;\<newline>'',
     ''      width: 100%;\<newline>'',
     ''      padding-top: 0.15in;\<newline>'',
     ''      border-top: 1px solid #eee;\<newline>'',
     ''    }\<newline>'',
     ''\<newline>'',
     ''    .social-item {\<newline>'',
     ''      display: flex;\<newline>'',
     ''      align-items: center;\<newline>'',
     ''      gap: 4px;\<newline>'',
     ''      font-size: 11px;\<newline>'',
     ''    }\<newline>'',
     ''\<newline>'',
     ''    .social-icon {\<newline>'',
     ''      width: 16px;\<newline>'',
     ''      height: 16px;\<newline>'',
     ''    }\<newline>'',
     ''\<newline>'',
     ''    @media print {\<newline>'',
     ''      body {\<newline>'',
     ''        -webkit-print-color-adjust: exact;\<newline>'',
     ''        print-color-adjust: exact;\<newline>'',
     ''      }\<newline>'',
     ''    }\<newline>'',
     ''  </style>\<newline>'',
     ''</head>\<newline>'',
     ''<body>\<newline>'',
     ''  <div class="label">\<newline>'',
     ''    <!-- Top line decoration -->\<newline>'',
     ''    <div class="top-line"></div>\<newline>'',
     ''    \<newline>'',
     ''    <!-- Thank you message -->\<newline>'',
     ''    <div class="thank-you">\<newline>'',
     ''      <div class="thank-you-text">THANK YOU,</div>\<newline>'',
     ''      <div class="customer-name">'']\<close>

definition document_before_logo_B :: "string list" where
  \<open>document_before_logo_B =
    [''</div>\<newline>'',
     ''    </div>\<newline>'',
     ''\<newline>'',
     ''    <!-- Logo -->\<newline>'',
     ''    <div class="logo-section">\<newline>'',
     ''      <img class="logo" src="data:image/png;base64,'']\<close>

definition document_before_date_B :: "string list" where
  \<open>document_before_date_B =
    [''" alt="AD-Bits Logo" />\<newline>'',
     ''      <div class="brand-name">AD-Bits</div>\<newline>'',
     ''    </div>\<newline>'',
     ''\<newline>'',
     ''    <!-- Order info -->\<newline>'',
     ''    <div class="order-info">\<newline>'',
     ''      <div class="date">'']\<close>

definition document_before_order_B :: "string list" where
  \<open>document_before_order_B =
    [''</div>\<newline>'',
     ''      <div class="order-number">Order '']\<close>

definition document_footer_B :: "string list" where
  \<open>document_footer_B =
    [''</div>\<newline>'',
     ''    </div>\<newline>'',
     ''\<newline>'',
     ''    <!-- Footer with social -->\<newline>'',
     ''    <div class="footer">\<newline>'',
     ''      <div class="social-item">\<newline>'',
     ''        <svg class="social-icon" viewBox="0 0 24 24" fill="black">\<newline>'',
     ''          <path d="M12 2.163c3.204 0 3.584.012 4.85.07 3.252.148 4.771 1.691 4.919 4.919'',
     ''.058 1.265.069 1.645.069 4.849 0 3.205-.012 3.584-.069 4.849-.149 3.225-1.664 4.771-4.91'',
     ''9 4.919-1.266.058-1.644.07-4.85.07-3.204 0-3.584-.012-4.849-.07-3.26-.149-4.771-1.699-4.'',
     ''919-4.92-.058-1.265-.07-1.644-.07-4.849 0-3.204.013-3.583.07-4.849.149-3.227 1.664-4.771'',
     '' 4.919-4.919 1.266-.057 1.645-.069 4.849-.069zm0-2.163c-3.259 0-3.667.014-4.947.072-4.35'',
     ''8.2-6.78 2.618-6.98 6.98-.059 1.281-.073 1.689-.073 4.948 0 3.259.014 3.668.072 4.948.2 '',
     ''4.358 2.618 6.78 6.98 6.98 1.281.058 1.689.072 4.948.072 3.259 0 3.668-.014 4.948-.072 4'',
     ''.354-.2 6.782-2.618 6.979-6.98.059-1.28.073-1.689.073-4.948 0-3.259-.014-3.667-.072-4.94'',
     ''7-.196-4.354-2.617-6.78-6.979-6.98-1.281-.059-1.69-.073-4.949-.073zm0 5.838c-3.403 0-6.1'',
     ''62 2.759-6.162 6.162s2.759 6.163 6.162 6.163 6.162-2.759 6.162-6.163c0-3.403-2.759-6.162'',
     ''-6.162-6.162zm0 10.162c-2.209 0-4-1.79-4-4 0-2.209 1.791-4 4-4s4 1.791 4 4c0 2.21-1.791 '',
     ''4-4 4zm6.406-11.845c-.796 0-1.441.645-1.441 1.44s.645 1.44 1.441 1.44c.795 0 1.439-.645 '',
     ''1.439-1.44s-.644-1.44-1.439-1.44z"/>\<newline>'',
     ''        </svg>\<newline>'',
     ''        <span>@adbits3d</span>\<newline>'',
     ''      </div>\<newline>'',
     ''      <div class="social-item">\<newline>'',
     ''        <svg class="social-icon" viewBox="0 0 24 24" fill="black">\<newline>'',
     ''          <circle cx="12" cy="12" r="10" stroke="black" stroke-width="2" fill="none"/>\<newline>'',
     ''          <path d="M2 12h20M12 2c-2.5 2.5-4 5.5-4 10s1.5 7.5 4 10c2.5-2.5 4-5.5 4-10s-1.'',
     ''5-7.5-4-10z" stroke="black" stroke-width="1.5" fill="none"/>\<newline>'',
     ''        </svg>\<newline>'',
     ''        <span>adbits.ca</span>\<newline>'',
     ''      </div>\<newline>'',
     ''      <div class="social-item">\<newline>'',
     ''        <svg class="social-icon" viewBox="0 0 24 24" fill="black">\<newline>'',
     ''          <path d="M24 12.073c0-6.627-5.373-12-12-12s-12 5.373-12 12c0 5.99 4.388 10.954'',
     '' 10.125 11.854v-8.385H7.078v-3.47h3.047V9.43c0-3.007 1.792-4.669 4.533-4.669 1.312 0 2.6'',
     ''86.235 2.686.235v2.953H15.83c-1.491 0-1.956.925-1.956 1.874v2.25h3.328l-.532 3.47h-2.796'',
     ''v8.385C19.612 23.027 24 18.062 24 12.073z"/>\<newline>'',
     ''        </svg>\<newline>'',
     ''        <span>AD-Bits</span>\<newline>'',
     ''      </div>\<newline>'',
     ''    </div>\<newline>'',
     ''  </div>\<newline>'',
     ''</body>\<newline>'',
     ''</html>'']\<close>

text \<open>
  \<open>logoBase64\<close> is the variable of the process that holds the logo read at startup:
  \<^verbatim>\<open>readFileSync(logoPath).toString('base64')\<close>, and the empty string when the file
  could not be read. A file is the list of its bytes.
\<close>

definition base64_alphabet :: string where
  "base64_alphabet = ''ABCDEFGHIJKLMNOPQRSTUVWXYZabcdefghijklmnopqrstuvwxyz0123456789+/''"

definition base64_char :: "nat \<Rightarrow> char" where
  "base64_char n = base64_alphabet ! (n mod 64)"

fun base64 :: "nat list \<Rightarrow> string" where
  "base64 [] = []"
| "base64 [a] = [base64_char (a div 4), base64_char (a mod 4 * 16), CHR ''='', CHR ''='']"
| "base64 [a, b] =
     [base64_char (a div 4), base64_char (a mod 4 * 16 + b div 16),
      base64_char (b mod 16 * 4), CHR ''='']"
| "base64 (a # b # c # rest) =
     [base64_char (a div 4), base64_char (a mod 4 * 16 + b div 16),
      base64_char (b mod 16 * 4 + c div 64), base64_char (c mod 64)] @ base64 rest"

definition load_logo :: "char list option \<Rightarrow> string" where
  "load_logo logo_file = (case logo_file of None \<Rightarrow> [] | Some bytes \<Rightarrow> base64 (map of_char bytes))"

definition document_B :: "html \<Rightarrow> html \<Rightarrow> string \<Rightarrow> string \<Rightarrow> html \<Rightarrow> html" where
  "document_B title customerName logoBase64 formattedDate orderNumber =
     concat (document_head @ [title] @ document_style_B @ [customerName]
             @ document_before_logo_B @ [logoBase64] @ document_before_date_B @ [formattedDate]
             @ document_before_order_B @ [orderNumber] @ document_footer_B)"

definition generateThermalLabelHtml_B :: "string \<Rightarrow> js_date \<Rightarrow> order \<Rightarrow> string option" where
  "generateThermalLabelHtml_B logoBase64 now order = do {
     let shippingAddress1 = js_or (shippingAddress order) (JObj []);
     firstName \<leftarrow> firstName_of shippingAddress1;
     let formattedDate = toLocaleDateString now;
     title \<leftarrow> escapeHtml (order_name order);
     upper \<leftarrow> call_toUpperCase firstName;
     customerName \<leftarrow> escapeHtml upper;
     orderNumber \<leftarrow> escapeHtml (order_name order);
     Some (document_B title customerName logoBase64 formattedDate orderNumber)
   }"

definition print_B :: "string \<Rightarrow> js_date \<Rightarrow> request \<Rightarrow> outcome" where
  "print_B logoBase64 now req =
     \<lparr>console = fst (parse_query req),
      reply = do {
        html \<leftarrow> generateThermalLabelHtml_B logoBase64 now (build_order req);
        Some (send_html html)
      }\<rparr>"

section \<open>Searching the rendered text\<close>

text \<open>The number of places at which \<open>p\<close> occurs in a text.\<close>

fun count_infix :: "'a list \<Rightarrow> 'a list \<Rightarrow> nat" where
  "count_infix p [] = 0"
| "count_infix p (x # xs) = (if prefix p (x # xs) then 1 else 0) + count_infix p xs"

text \<open>A text ends inside a possible occurrence of \<open>p\<close>: one of its ends begins \<open>p\<close>.\<close>

fun overlap :: "'a list \<Rightarrow> 'a list \<Rightarrow> bool" where
  "overlap p [] = False"
| "overlap p (x # xs) = (strict_prefix (x # xs) p \<or> overlap p xs)"

text \<open>A piece of text in which \<open>p\<close> neither occurs nor begins at the end.\<close>

definition inert :: "'a list \<Rightarrow> 'a list \<Rightarrow> bool" where
  "inert p x = (\<not> overlap p x \<and> count_infix p x = 0)"

text \<open>What a client receives: whether and how often a text occurs in the body sent.\<close>

definition response_count :: "string \<Rightarrow> outcome \<Rightarrow> nat" where
  "response_count p out = (case reply out of None \<Rightarrow> 0 | Some r \<Rightarrow> count_infix p (body r))"

definition response_contains :: "string \<Rightarrow> outcome \<Rightarrow> bool" where
  "response_contains p out = (case reply out of None \<Rightarrow> False | Some r \<Rightarrow> sublist p (body r))"

text \<open>
  The two elements that separate the labels of a document: the opening tag of a label and
  the page break.
\<close>

definition marker :: "string \<Rightarrow> bool" where
  \<open>marker p \<longleftrightarrow> p = ''<div class="label">'' \<or> p = page_break\<close>


section \<open>The data model\<close>

text \<open>
  An address is an object whose fields are strings where present, and an order has a string
  for its name. A line item is any value but \<^verbatim>\<open>null\<close> and \<^verbatim>\<open>undefined\<close>, with any title
  and name that can be printed and any quantity that prints without a \<^verbatim>\<open><\<close>: a number, a
  string of digits, and so on. A value can be printed unless the conversion to a string
  meets an object with a \<^verbatim>\<open>toString\<close> property of its own.
\<close>

fun printable :: "jsval \<Rightarrow> bool" where
  "printable (JArr xs) = list_all printable xs"
| "printable (JObj kvs) = (''toString'' \<notin> fst ` set kvs)"
| "printable v = True"

fun plain :: "jsval \<Rightarrow> bool" where
  "plain (JStr s) = (CHR ''<'' \<notin> set s)"
| "plain (JArr xs) = list_all plain xs"
| "plain (JObj kvs) = (''toString'' \<notin> fst ` set kvs)"
| "plain v = True"

text \<open>The own property of a value, \<^verbatim>\<open>undefined\<close> when it has none of that name.\<close>

definition property :: "jsval \<Rightarrow> string \<Rightarrow> jsval" where
  "property v k = (case v of JObj kvs \<Rightarrow> field kvs k | _ \<Rightarrow> JUndefined)"

text \<open>
  What a row shows, in the words of the specification: the quantity of the item, 1 when it
  has none (or a falsy one), and its title, else its name, else \<^verbatim>\<open>Item\<close>.
\<close>

definition shown_quantity :: "jsval \<Rightarrow> jsval" where
  "shown_quantity item =
     (if truthy (property item ''quantity'') then property item ''quantity'' else JNum 1)"

definition shown_title :: "jsval \<Rightarrow> jsval" where
  "shown_title item =
     (if truthy (property item ''title'') then property item ''title''
      else if truthy (property item ''name'') then property item ''name''
      else JStr ''Item'')"

definition is_text :: "jsval \<Rightarrow> bool" where
  "is_text v = (case v of JUndefined \<Rightarrow> True | JStr s \<Rightarrow> True | _ \<Rightarrow> False)"

definition address_fields :: "string list" where
  "address_fields =
     [''name'', ''firstName'', ''company'', ''address1'', ''address2'', ''city'',
      ''provinceCode'', ''province'', ''zip'', ''country'', ''phone'']"

definition is_address :: "jsval \<Rightarrow> bool" where
  "is_address v =
     (case v of JObj kvs \<Rightarrow> list_all (\<lambda>k. is_text (field kvs k)) address_fields | _ \<Rightarrow> False)"

definition is_line_item :: "jsval \<Rightarrow> bool" where
  "is_line_item v =
     (v \<noteq> JNull \<and> v \<noteq> JUndefined
      \<and> plain (property v ''quantity'')
      \<and> printable (property v ''title'')
      \<and> (truthy (property v ''title'') \<or> printable (property v ''name'')))"

definition is_order :: "order \<Rightarrow> bool" where
  "is_order order =
     ((case order_name order of JStr s \<Rightarrow> True | _ \<Rightarrow> False)
      \<and> is_address (shippingAddress order)
      \<and> (case lineItems order of JArr xs \<Rightarrow> list_all is_line_item xs | _ \<Rightarrow> False))"

section \<open>Counting occurrences in concatenated text\<close>

lemma count_infix_append:
  "\<not> overlap p x \<Longrightarrow> count_infix p (x @ y) = count_infix p x + count_infix p y"
proof (induction x)
  case Nil
  then show ?case by simp
next
  case (Cons a x)
  have "prefix p (a # x @ y) \<longleftrightarrow> prefix p (a # x)"
  proof
    assume "prefix p (a # x @ y)"
    then have "prefix p ((a # x) @ y)" by simp
    then have "prefix p (a # x) \<or> strict_prefix (a # x) p"
      by (metis prefix_append prefix_order.less_le append_prefixD prefix_same_cases prefixI)
    with Cons.prems show "prefix p (a # x)" by simp
  next
    assume "prefix p (a # x)"
    then show "prefix p (a # x @ y)"
      by (metis append_Cons prefix_prefix)
  qed
  with Cons show ?case by simp
qed

lemma overlap_append: "\<not> overlap p x \<Longrightarrow> \<not> overlap p y \<Longrightarrow> \<not> overlap p (x @ y)"
proof (induction x)
  case Nil
  then show ?case by simp
next
  case (Cons a x)
  have "\<not> strict_prefix (a # x @ y) p"
  proof
    assume "strict_prefix (a # x @ y) p"
    then have "strict_prefix (a # x) p"
      by (metis append_Cons prefix_order.dual_order.strict_trans1 prefixI strict_prefix_def prefix_order.less_le_trans)
    with Cons.prems show False by simp
  qed
  with Cons show ?case by simp
qed

lemma inert_Nil: "inert p []"
  by (simp add: inert_def)

lemma inert_append: "inert p x \<Longrightarrow> inert p y \<Longrightarrow> inert p (x @ y)"
  by (simp add: inert_def overlap_append count_infix_append)

lemma inert_concat: "list_all (inert p) xs \<Longrightarrow> inert p (concat xs)"
  by (induction xs) (simp_all add: inert_Nil inert_append)

lemma inert_absent: "c \<notin> set x \<Longrightarrow> inert (c # p) x"
  by (induction x) (auto simp: inert_def)

lemma overlap_concat: "list_all (\<lambda>x. \<not> overlap p x) xs \<Longrightarrow> \<not> overlap p (concat xs)"
  by (induction xs) (simp_all add: overlap_append)

lemma count_infix_concat:
  "list_all (\<lambda>x. \<not> overlap p x) xs \<Longrightarrow> count_infix p (concat xs) = sum_list (map (count_infix p) xs)"
  by (induction xs) (simp_all add: count_infix_append)

lemma concat_count:
  assumes "xs = concat L" and "list_all (\<lambda>x. \<not> overlap p x) L"
  shows "count_infix p xs = sum_list (map (count_infix p) L) \<and> \<not> overlap p xs"
  using assms by (simp add: count_infix_concat overlap_concat)

lemma count_infix_sublist: "p \<noteq> [] \<Longrightarrow> sublist p s \<longleftrightarrow> 0 < count_infix p s"
  by (induction s) (auto simp: sublist_Cons_right)

subsection \<open>Parts of the templates\<close>

lemma sublist_concat: "x \<in> set L \<Longrightarrow> sublist x (concat L)"
proof -
  assume "x \<in> set L"
  then obtain a b where "L = a @ x # b"
    by (auto simp: in_set_conv_decomp)
  then have "concat L = concat a @ x @ concat b"
    by simp
  then show ?thesis
    by (simp only: sublist_appendI)
qed

lemma sublist_chain: "sublist a b \<Longrightarrow> sublist b c \<Longrightarrow> sublist a c"
  by (rule sublist_order.order.trans)

lemma sublist_document_A: "sublist labelsHtml (document_A title labelsHtml)"
  unfolding document_A_def by (rule sublist_concat) simp

lemma sublist_label_recipient:
  "sublist recipient
     (label_html orderNumber formattedDate recipient company address1 address2 city province
        zipCode country phone itemsHtml moreItemsHtml barcode barcodeText)"
  unfolding label_html_def by (rule sublist_concat) simp

lemma sublist_label_city:
  "sublist city
     (label_html orderNumber formattedDate recipient company address1 address2 city province
        zipCode country phone itemsHtml moreItemsHtml barcode barcodeText)"
  unfolding label_html_def by (rule sublist_concat) simp

lemma sublist_label_items:
  "sublist itemsHtml
     (label_html orderNumber formattedDate recipient company address1 address2 city province
        zipCode country phone itemsHtml moreItemsHtml barcode barcodeText)"
  unfolding label_html_def by (rule sublist_concat) simp


section \<open>Numbers as text\<close>

lemma digit_char_in: "d < 10 \<Longrightarrow> digit_char d \<in> set ''0123456789''"
  unfolding digit_char_def by (rule nth_mem) simp

lemma string_of_nat_digits: "set (string_of_nat n) \<subseteq> set ''0123456789''"
proof (induction n rule: string_of_nat.induct)
  case (1 n)
  show ?case
  proof (cases "n < 10")
    case True
    then show ?thesis
      using digit_char_in [of n] by (subst string_of_nat.simps) simp
  next
    case False
    then have "set (string_of_nat (n div 10)) \<subseteq> set ''0123456789''"
      using "1.IH" by simp
    moreover have "digit_char (n mod 10) \<in> set ''0123456789''"
      by (rule digit_char_in) simp
    ultimately show ?thesis
      using False by (subst string_of_nat.simps) simp
  qed
qed

lemma string_of_nat_not: "c \<notin> set ''0123456789'' \<Longrightarrow> c \<notin> set (string_of_nat n)"
  using string_of_nat_digits [of n] by blast


section \<open>The barcode\<close>

lemma barcode_loop_bars:
  "snd (barcode_loop x lines cs) =
     lines @ map (\<lambda>k. rect (x + (\<Sum>j<k. (bar_width (cs ! j) + 2))) (bar_width (cs ! k))) [0..<length cs]"
proof (induction cs arbitrary: x lines)
  case Nil
  then show ?case by simp
next
  case (Cons c cs)
  define F where "F = (\<lambda>k. rect (x + (\<Sum>j<k. (bar_width ((c # cs) ! j) + 2))) (bar_width ((c # cs) ! k)))"
  define G where "G = (\<lambda>k. rect (x + (bar_width c + 2) + (\<Sum>j<k. (bar_width (cs ! j) + 2))) (bar_width (cs ! k)))"
  have upt: "[0..<length (c # cs)] = 0 # map Suc [0..<length cs]"
    by (simp add: upt_conv_Cons map_Suc_upt del: upt_Suc)
  have shift: "(\<Sum>j<Suc k. (bar_width ((c # cs) ! j) + 2)) = (bar_width c + 2) + (\<Sum>j<k. (bar_width (cs ! j) + 2))" for k
    by (subst sum.lessThan_Suc_shift) simp
  have FG: "F (Suc k) = G k" for k
    unfolding F_def G_def shift by (simp add: add.assoc)
  have F0: "F 0 = rect x (bar_width c)"
    by (simp add: F_def)
  have "map F [0..<length (c # cs)] = rect x (bar_width c) # map G [0..<length cs]"
    unfolding upt by (simp add: FG F0 comp_def)
  moreover have "snd (barcode_loop x lines (c # cs)) = (lines @ [rect x (bar_width c)]) @ map G [0..<length cs]"
    using Cons.IH [of "x + (bar_width c + 2)" "lines @ [rect x (bar_width c)]"]
    by (simp add: G_def bar_width_def Let_def)
  ultimately show ?case
    unfolding F_def by simp
qed



lemma filter_empty_barcode: "generateBarcodeLines (JStr name) = Some (concat (snd (barcode_loop 10 [] (filter is_alphanumeric name))))"
  by (cases name) (simp_all add: generateBarcodeLines_def)

lemma barcode_bars:
  "generateBarcodeLines (JStr name) = Some (concat (map (\<lambda>(x, w). rect x w) (bars_spec name)))"
  by (simp add: filter_empty_barcode barcode_loop_bars bars_spec_def Let_def comp_def)



section \<open>Escaping\<close>

lemma replace_all_Nil [simp]: "replace_all c r [] = []"
  by (simp add: replace_all_def)

lemma replace_all_Cons [simp]:
  "replace_all c r (x # xs) = (if x = c then r else [x]) @ replace_all c r xs"
  by (simp add: replace_all_def)

lemma replace_all_append: "replace_all c r (xs @ ys) = replace_all c r xs @ replace_all c r ys"
  by (simp add: replace_all_def)

lemma escape_text_Nil [simp]: "escape_text [] = []"
  by (simp add: escape_text_def)

lemma escape_text_append: "escape_text (xs @ ys) = escape_text xs @ escape_text ys"
  by (simp add: escape_text_def replace_all_append)

lemma escape_text_single: "escape_text [c] = entity c"
  by (simp add: escape_text_def entity_def)

lemma escape_text_Cons: "escape_text (c # s) = entity c @ escape_text s"
  using escape_text_append [of "[c]" s] by (simp add: escape_text_single)

lemma escape_text_entities: "escape_text s = concat (map entity s)"
  by (induction s) (simp_all add: escape_text_Cons)

lemma entity_no_raw:
  \<open>c \<in> {CHR ''<'', CHR ''>'', CHR 0x22, CHR 0x27} \<Longrightarrow> c \<notin> set (entity d)\<close>
  by (auto simp: entity_def)

lemma escape_text_no_raw:
  \<open>c \<in> {CHR ''<'', CHR ''>'', CHR 0x22, CHR 0x27} \<Longrightarrow> c \<notin> set (escape_text s)\<close>
  using entity_no_raw [of c] by (auto simp: escape_text_entities)

lemma escape_text_entity: "c \<in> set s \<Longrightarrow> sublist (entity c) (escape_text s)"
proof -
  assume "c \<in> set s"
  then obtain a b where "s = a @ c # b"
    by (auto simp: in_set_conv_decomp)
  then have "escape_text s = escape_text a @ entity c @ escape_text b"
    by (simp add: escape_text_append escape_text_Cons)
  then show ?thesis
    by (metis sublist_appendI)
qed

lemma entity_ampersands:
  \<open>count_infix ''&'' (entity c) = (if c \<in> set special_chars then 1 else 0)\<close>
  by (simp add: entity_def special_chars_def)

lemma escapeHtml_no_raw:
  assumes "escapeHtml v = Some e"
  shows \<open>CHR ''<'' \<notin> set e \<and> CHR ''>'' \<notin> set e \<and> CHR 0x22 \<notin> set e \<and> CHR 0x27 \<notin> set e\<close>
  using assms escape_text_no_raw
  by (auto simp: escapeHtml_def split: if_splits)

section \<open>Item rows\<close>

lemma sequence_Some: "sequence xs = Some ys \<longleftrightarrow> xs = map Some ys"
proof (induction xs arbitrary: ys)
  case Nil
  then show ?case by auto
next
  case (Cons x xs)
  then show ?case
    by (cases x; cases ys) (auto simp: bind_eq_Some_conv)
qed

lemma number_toString_not:
  assumes "c \<noteq> CHR ''-''" and "c \<notin> set ''0123456789''"
  shows "c \<notin> set (number_toString i)"
  using assms(1) string_of_nat_not [OF assms(2)]
  by (simp add: number_toString_def)

lemma number_toString_one: "number_toString 1 = ''1''"
  by (simp add: number_toString_def string_of_nat.simps digit_char_def)








lemma is_text_cases: "is_text v \<longleftrightarrow> v = JUndefined \<or> (\<exists>s. v = JStr s)"
  by (cases v) (simp_all add: is_text_def)

lemma is_text_js_or: "is_text a \<Longrightarrow> is_text b \<Longrightarrow> is_text (js_or a b)"
  by (simp add: js_or_def)

lemma js_or_text: "is_text a \<Longrightarrow> \<exists>s. js_or a (JStr d) = JStr s"
  by (auto simp: is_text_cases js_or_def)

lemma escapeHtml_text: "escapeHtml (JStr s) = Some (escape_text s)"
  by (simp add: escapeHtml_def)

subsection \<open>Values that print\<close>

lemma number_text_plain: "CHR ''<'' \<notin> set (Rep_number_text t)"
proof
  assume "CHR ''<'' \<in> set (Rep_number_text t)"
  moreover have "set (Rep_number_text t) \<subseteq> set ''0123456789.e+-Infinity''"
    using Rep_number_text [of t] by simp
  ultimately have "CHR ''<'' \<in> set ''0123456789.e+-Infinity''"
    by (rule rev_subsetD)
  then show False by simp
qed

lemma join_plain:
  assumes "list_all (\<lambda>y. CHR ''<'' \<notin> set y) ys"
  shows "CHR ''<'' \<notin> set (join '','' ys)"
  using assms by (induction "'',''" ys rule: join.induct) simp_all

lemma elements_print:
  assumes "\<And>x. x \<in> set xs \<Longrightarrow> \<exists>s. toString x = Some s \<and> (strict \<longrightarrow> CHR ''<'' \<notin> set s)"
  shows "\<exists>ys. sequence (map (\<lambda>x. if x = JNull \<or> x = JUndefined then Some [] else toString x) xs) = Some ys
       \<and> (strict \<longrightarrow> list_all (\<lambda>y. CHR ''<'' \<notin> set y) ys)"
  using assms
proof (induction xs)
  case Nil
  then show ?case by simp
next
  case (Cons x xs)
  then obtain ys where ys: "sequence (map (\<lambda>x. if x = JNull \<or> x = JUndefined then Some [] else toString x) xs) = Some ys"
    "strict \<longrightarrow> list_all (\<lambda>y. CHR ''<'' \<notin> set y) ys"
    by auto
  from Cons.prems [of x] obtain s where s: "toString x = Some s" "strict \<longrightarrow> CHR ''<'' \<notin> set s"
    by auto
  show ?case
  proof (cases "x = JNull \<or> x = JUndefined")
    case True
    with ys show ?thesis by auto
  next
    case False
    with ys s show ?thesis by auto
  qed
qed

lemma number_plain: "CHR ''<'' \<notin> set (number_toString i)"
  by (rule number_toString_not) simp_all

lemma printable_toString: "printable v \<Longrightarrow> \<exists>s. toString v = Some s"
proof (induction v)
  case (JArr xs)
  then have "\<And>x. x \<in> set xs \<Longrightarrow> \<exists>s. toString x = Some s \<and> (False \<longrightarrow> CHR ''<'' \<notin> set s)"
    by (simp add: list_all_iff)
  from elements_print [OF this] show ?case
    by auto
qed simp_all

lemma plain_toString: "plain v \<Longrightarrow> \<exists>s. toString v = Some s \<and> CHR ''<'' \<notin> set s"
proof (induction v)
  case (JArr xs)
  then have "\<And>x. x \<in> set xs \<Longrightarrow> \<exists>s. toString x = Some s \<and> (True \<longrightarrow> CHR ''<'' \<notin> set s)"
    by (simp add: list_all_iff)
  from elements_print [OF this] obtain ys
    where "sequence (map (\<lambda>x. if x = JNull \<or> x = JUndefined then Some [] else toString x) xs) = Some ys"
      "list_all (\<lambda>y. CHR ''<'' \<notin> set y) ys"
    by auto
  then show ?case
    using join_plain [of ys] by simp
next
  case (JNum n)
  show ?case
    by (simp add: number_plain)
next
  case (JReal t)
  show ?case
    by (simp add: number_text_plain)
qed simp_all

subsection \<open>The row of a line item\<close>

lemma get_prop_property:
  "item \<noteq> JNull \<Longrightarrow> item \<noteq> JUndefined \<Longrightarrow> get_prop item k = Some (property item k)"
  by (cases item) (simp_all add: property_def)

lemma item_quantity_shown:
  assumes "item \<noteq> JNull" and "item \<noteq> JUndefined"
  shows "item_quantity item = toString (shown_quantity item)"
  by (simp add: item_quantity_def get_prop_property [OF assms] js_or_def shown_quantity_def)

lemma item_title_shown:
  assumes "item \<noteq> JNull" and "item \<noteq> JUndefined"
  shows "item_title item = map_option escape_text (toString (shown_title item))"
proof -
  have t: "truthy (shown_title item)"
    by (simp add: shown_title_def)
  have "js_or (property item ''title'') (js_or (property item ''name'') (JStr ''Item'')) = shown_title item"
    by (simp add: js_or_def shown_title_def)
  then show ?thesis
    using t by (simp add: item_title_def get_prop_property [OF assms] escapeHtml_def)
qed

lemma line_item_quantity:
  assumes "is_line_item item"
  shows "\<exists>qty. toString (shown_quantity item) = Some qty \<and> item_quantity item = Some qty
       \<and> CHR ''<'' \<notin> set qty"
proof -
  from assms have item: "item \<noteq> JNull" "item \<noteq> JUndefined" and q: "plain (property item ''quantity'')"
    by (simp_all add: is_line_item_def)
  have "plain (shown_quantity item)"
    using q by (simp add: shown_quantity_def)
  from plain_toString [OF this] show ?thesis
    by (simp add: item_quantity_shown [OF item])
qed

lemma line_item_title:
  assumes "is_line_item item"
  shows "\<exists>title. toString (shown_title item) = Some title
       \<and> item_title item = Some (escape_text title)
       \<and> CHR ''<'' \<notin> set (escape_text title)"
proof -
  from assms have item: "item \<noteq> JNull" "item \<noteq> JUndefined"
    and t: "printable (property item ''title'')"
    and n: "truthy (property item ''title'') \<or> printable (property item ''name'')"
    by (simp_all add: is_line_item_def)
  have "printable (shown_title item)"
    using t n by (auto simp: shown_title_def)
  from printable_toString [OF this] obtain title where "toString (shown_title item) = Some title" ..
  moreover have "CHR ''<'' \<notin> set (escape_text title)"
    by (rule escape_text_no_raw) simp
  ultimately show ?thesis
    by (simp add: item_title_shown [OF item])
qed



lemma more_items_text:
  \<open>moreItemsHtml_of xs =
     (if 5 < length xs
      then concat [''<div class="more-items">+ '', string_of_nat (length xs - 5), '' more items</div>'']
      else [])\<close>
proof (cases "5 < length xs")
  case True
  then have "nat (int (length xs) - 5) = length xs - 5" "\<not> int (length xs) - 5 < 0"
    by simp_all
  with True show ?thesis
    by (simp add: moreItemsHtml_of_def number_toString_def Let_def)
next
  case False
  then show ?thesis
    by (simp add: moreItemsHtml_of_def Let_def)
qed


lemma rows_of_items:
  assumes "list_all is_line_item ys"
  shows \<open>\<exists>rows. sequence (map item_row ys) = Some rows
      \<and> list_all2 (\<lambda>item r. \<exists>qty title. toString (shown_quantity item) = Some qty
             \<and> toString (shown_title item) = Some title
             \<and> r = row_html qty (escape_text title)
             \<and> CHR ''<'' \<notin> set qty) ys rows\<close>
  using assms
proof (induction ys)
  case Nil
  then show ?case by simp
next
  case (Cons item ys)
  then obtain rows where rows: "sequence (map item_row ys) = Some rows"
    \<open>list_all2 (\<lambda>item r. \<exists>qty title. toString (shown_quantity item) = Some qty
             \<and> toString (shown_title item) = Some title
             \<and> r = row_html qty (escape_text title)
             \<and> CHR ''<'' \<notin> set qty) ys rows\<close>
    by auto
  from Cons.prems have item: "is_line_item item" by simp
  from line_item_quantity [OF item] obtain qty
    where qty: "toString (shown_quantity item) = Some qty" "item_quantity item = Some qty"
      "CHR ''<'' \<notin> set qty" by blast
  from line_item_title [OF item] obtain title
    where title: "toString (shown_title item) = Some title"
      "item_title item = Some (escape_text title)" by blast
  have row: "item_row item = Some (row_html qty (escape_text title))"
    by (simp add: item_row_def qty title)
  show ?case
    apply (rule exI [of _ "row_html qty (escape_text title) # rows"])
    using rows row qty title
    apply simp
    done
qed

lemma rows_plain:
  assumes \<open>list_all2 (\<lambda>item r. \<exists>qty title. toString (shown_quantity item) = Some qty
             \<and> toString (shown_title item) = Some title
             \<and> r = row_html qty (escape_text title)
             \<and> CHR ''<'' \<notin> set qty) ys rows\<close>
  shows \<open>list_all (\<lambda>r. \<exists>qty title. r = row_html qty title
             \<and> CHR ''<'' \<notin> set qty \<and> CHR ''<'' \<notin> set title) rows\<close>
  using assms
proof (induction ys rows rule: list_all2_induct)
  case Nil
  then show ?case by simp
next
  case (Cons item ys r rows)
  then obtain qty title where "r = row_html qty (escape_text title)" "CHR ''<'' \<notin> set qty"
    by blast
  moreover have "CHR ''<'' \<notin> set (escape_text title)"
    by (rule escape_text_no_raw) simp
  ultimately have "\<exists>qty title. r = row_html qty title
             \<and> CHR ''<'' \<notin> set qty \<and> CHR ''<'' \<notin> set title"
    by blast
  with Cons show ?case by simp
qed

section \<open>Labels and page breaks in the rendered text\<close>

lemma marker_tag: "marker p \<Longrightarrow> \<exists>q. p = CHR ''<'' # q"
  unfolding marker_def page_break_def by (elim disjE) simp_all

lemma inert_plain:
  assumes "marker p" and "CHR ''<'' \<notin> set x"
  shows "inert p x"
proof -
  from marker_tag [OF assms(1)] obtain q where "p = CHR ''<'' # q" ..
  with inert_absent [OF assms(2), of q] show ?thesis by simp
qed

lemma inert_escapeHtml:
  assumes "marker p" and "escapeHtml v = Some e"
  shows "inert p e"
  using inert_plain [OF assms(1)] escapeHtml_no_raw [OF assms(2)] by simp

lemma inert_row_html:
  assumes "marker p" and "CHR ''<'' \<notin> set qty" and "CHR ''<'' \<notin> set title"
  shows "inert p (row_html qty title)"
  using assms(1) inert_plain [OF assms(1,2)] inert_plain [OF assms(1,3)]
    concat_count [OF row_html_def, of p qty title]
  unfolding marker_def page_break_def
  by (elim disjE) (simp_all add: inert_def)

lemma inert_more_items:
  assumes "marker p"
  shows "inert p (moreItemsHtml_of xs)"
proof (cases "5 < length xs")
  case True
  define n where "n = string_of_nat (length xs - 5)"
  have eq: \<open>moreItemsHtml_of xs = concat [''<div class="more-items">+ '', n, '' more items</div>'']\<close>
    using True by (simp add: more_items_text n_def)
  have "CHR ''<'' \<notin> set n"
    unfolding n_def by (rule string_of_nat_not) simp
  from inert_plain [OF assms this] assms concat_count [OF eq, of p]
  show ?thesis
    unfolding marker_def page_break_def
    by (elim disjE) (simp_all add: inert_def)
next
  case False
  then show ?thesis
    by (simp add: more_items_text inert_def)
qed

lemma inert_rect:
  assumes "marker p"
  shows "inert p (rect x w)"
proof -
  have "CHR ''<'' \<notin> set (string_of_nat n)" for n
    by (rule string_of_nat_not) simp
  from inert_plain [OF assms this] assms concat_count [OF rect_def, of p x w]
  show ?thesis
    unfolding marker_def page_break_def
    by (elim disjE) (simp_all add: inert_def)
qed

lemma inert_barcode:
  assumes "marker p" and "generateBarcodeLines v = Some b"
  shows "inert p b"
proof (cases "truthy v")
  case False
  with assms(2) show ?thesis
    by (simp add: generateBarcodeLines_def inert_def)
next
  case True
  with assms(2) obtain s where v: "v = JStr s"
    by (cases v) (simp_all add: generateBarcodeLines_def)
  have "b = concat (map (\<lambda>(x, w). rect x w) (bars_spec s))"
    using assms(2) barcode_bars [of s] by (simp add: v)
  moreover have "list_all (inert p) (map (\<lambda>(x, w). rect x w) (bars_spec s))"
    by (auto simp: list_all_iff inert_rect [OF assms(1)])
  ultimately show ?thesis
    by (simp add: inert_concat)
qed

lemma inert_optional_div:
  assumes "marker p" and "optional_div opening v = Some d"
    and \<open>opening = ''<div class="company">'' \<or> opening = ''<div class="street">''
         \<or> opening = ''<div class="phone">Tel: ''\<close>
  shows "inert p d"
proof (cases "truthy v")
  case False
  with assms(2) show ?thesis
    by (simp add: optional_div_def inert_def)
next
  case True
  with assms(2) obtain e where e: "escapeHtml v = Some e" and d: \<open>d = concat [opening, e, ''</div>'']\<close>
    by (auto simp: optional_div_def)
  from inert_escapeHtml [OF assms(1) e] assms(1,3) concat_count [OF d, of p]
  show ?thesis
    unfolding marker_def page_break_def
    by (elim disjE) (simp_all add: inert_def)
qed

lemma label_html_marker:
  assumes "marker p"
    and "list_all (inert p)
     [orderNumber, formattedDate, recipient, company, address1, address2, city, province,
      zipCode, country, phone, itemsHtml, moreItemsHtml, barcode, barcodeText]"
  shows \<open>count_infix p
       (label_html orderNumber formattedDate recipient company address1 address2 city province
          zipCode country phone itemsHtml moreItemsHtml barcode barcodeText)
     = (if p = ''<div class="label">'' then 1 else 0)
     \<and> \<not> overlap p
       (label_html orderNumber formattedDate recipient company address1 address2 city province
          zipCode country phone itemsHtml moreItemsHtml barcode barcodeText)\<close>
  using assms concat_count [OF label_html_def, of p orderNumber formattedDate recipient company
      address1 address2 city province zipCode country phone itemsHtml moreItemsHtml barcode
      barcodeText]
  unfolding marker_def page_break_def
  by (elim disjE) (simp_all add: inert_def)

lemma document_A_marker:
  assumes "marker p" and "inert p title" and "\<not> overlap p labelsHtml"
  shows "count_infix p (document_A title labelsHtml) = count_infix p labelsHtml"
  using assms concat_count [OF document_A_def, of p title labelsHtml]
  unfolding marker_def page_break_def
  by (elim disjE) (simp_all add: inert_def document_head_def document_style_A_def document_tail_def)

lemma join_replicate:
  assumes "\<not> overlap p b" and "\<not> overlap p sep"
  shows "count_infix p (join sep (replicate n b)) = n * count_infix p b + (n - 1) * count_infix p sep
       \<and> \<not> overlap p (join sep (replicate n b))"
proof (induction n)
  case 0
  then show ?case by simp
next
  case (Suc n)
  show ?case
  proof (cases n)
    case 0
    then show ?thesis using assms by simp
  next
    case (Suc k)
    then have "join sep (replicate (Suc n) b) = b @ sep @ join sep (replicate n b)"
      by simp
    with Suc.IH assms Suc show ?thesis
      by (simp add: count_infix_append overlap_append)
  qed
qed

section \<open>Orders of the data model\<close>

lemma date_plain: "CHR ''<'' \<notin> set (toLocaleDateString now)"
proof -
  have "CHR ''<'' \<notin> set (string_of_nat n)" for n
    by (rule string_of_nat_not) simp
  then show ?thesis
    by (cases "month now") (simp_all add: toLocaleDateString_def)
qed

lemma is_text_JStr [simp]: "is_text (JStr s)"
  by (simp add: is_text_def)

lemma escapeHtml_total: "is_text v \<Longrightarrow> \<exists>e. escapeHtml v = Some e"
  unfolding is_text_cases by (elim disjE exE) (simp_all add: escapeHtml_def)

lemma optional_div_total: "is_text v \<Longrightarrow> \<exists>d. optional_div opening v = Some d"
  using escapeHtml_total [of v] by (auto simp: optional_div_def)

lemma address_field_text:
  assumes "is_address sa"
  shows "\<exists>kvs. sa = JObj kvs \<and> (\<forall>k \<in> set address_fields. is_text (field kvs k))"
  using assms by (cases sa) (simp_all add: is_address_def list_all_iff)

lemma label_block_typed:
  assumes sa: "is_address sa" and name: "order_name order = JStr s" and p: "marker p"
    and items: "inert p itemsHtml" and rest: "inert p moreItemsHtml"
  shows \<open>\<exists>block. label_block order sa (toLocaleDateString now) itemsHtml moreItemsHtml = Some block
       \<and> count_infix p block = (if p = ''<div class="label">'' then 1 else 0)
       \<and> \<not> overlap p block\<close>
proof -
  from address_field_text [OF sa] obtain kvs where kvs: "sa = JObj kvs"
    and fields: "\<And>k. k \<in> set address_fields \<Longrightarrow> is_text (field kvs k)"
    by blast
  have f: "is_text (field kvs ''name'')" "is_text (field kvs ''company'')"
    "is_text (field kvs ''address1'')" "is_text (field kvs ''address2'')"
    "is_text (field kvs ''city'')" "is_text (field kvs ''provinceCode'')"
    "is_text (field kvs ''province'')" "is_text (field kvs ''zip'')"
    "is_text (field kvs ''country'')" "is_text (field kvs ''phone'')"
    by (rule fields, simp add: address_fields_def)+
  have orderNumber: "escapeHtml (order_name order) = Some (escape_text s)"
    by (simp add: name escapeHtml_text)
  obtain recipient where recipient: "escapeHtml (js_or (field kvs ''name'') (JStr ''N/A'')) = Some recipient"
    using escapeHtml_total [OF is_text_js_or [OF f(1) is_text_JStr]] by blast
  obtain company where company: \<open>optional_div ''<div class="company">'' (field kvs ''company'') = Some company\<close>
    using optional_div_total [OF f(2)] by blast
  obtain address1 where address1: "escapeHtml (js_or (field kvs ''address1'') (JStr [])) = Some address1"
    using escapeHtml_total [OF is_text_js_or [OF f(3) is_text_JStr]] by blast
  obtain address2 where address2: \<open>optional_div ''<div class="street">'' (field kvs ''address2'') = Some address2\<close>
    using optional_div_total [OF f(4)] by blast
  obtain city where city: "escapeHtml (js_or (field kvs ''city'') (JStr [])) = Some city"
    using escapeHtml_total [OF is_text_js_or [OF f(5) is_text_JStr]] by blast
  obtain province where province:
    "escapeHtml (js_or (field kvs ''provinceCode'') (js_or (field kvs ''province'') (JStr []))) = Some province"
    using escapeHtml_total [OF is_text_js_or [OF f(6) is_text_js_or [OF f(7) is_text_JStr]]] by blast
  obtain zipCode where zipCode: "escapeHtml (js_or (field kvs ''zip'') (JStr [])) = Some zipCode"
    using escapeHtml_total [OF is_text_js_or [OF f(8) is_text_JStr]] by blast
  obtain country where country: "escapeHtml (js_or (field kvs ''country'') (JStr [])) = Some country"
    using escapeHtml_total [OF is_text_js_or [OF f(9) is_text_JStr]] by blast
  obtain phone where phone: \<open>optional_div ''<div class="phone">Tel: '' (field kvs ''phone'') = Some phone\<close>
    using optional_div_total [OF f(10)] by blast
  have barcode: "generateBarcodeLines (order_name order)
      = Some (concat (map (\<lambda>(x, w). rect x w) (bars_spec s)))"
    by (simp add: name barcode_bars)
  let ?barcode = "concat (map (\<lambda>(x, w). rect x w) (bars_spec s))"
  let ?date = "toLocaleDateString now"
  have block: "label_block order sa ?date itemsHtml moreItemsHtml
      = Some (label_html (escape_text s) ?date recipient company address1 address2 city province
                zipCode country phone itemsHtml moreItemsHtml ?barcode (escape_text s))"
    by (simp add: label_block_def kvs orderNumber recipient company address1 address2 city
        province zipCode country phone barcode)
  have pieces: "list_all (inert p)
      [escape_text s, ?date, recipient, company, address1, address2, city, province,
       zipCode, country, phone, itemsHtml, moreItemsHtml, ?barcode, escape_text s]"
    using inert_escapeHtml [OF p orderNumber] inert_plain [OF p date_plain [of now]]
      inert_escapeHtml [OF p recipient] inert_optional_div [OF p company]
      inert_escapeHtml [OF p address1] inert_optional_div [OF p address2]
      inert_escapeHtml [OF p city] inert_escapeHtml [OF p province]
      inert_escapeHtml [OF p zipCode] inert_escapeHtml [OF p country]
      inert_optional_div [OF p phone] items rest inert_barcode [OF p barcode]
    by simp
  from label_html_marker [OF p pieces] block show ?thesis
    by simp
qed

lemma sequence_replicate: "sequence (replicate n (Some x)) = Some (replicate n x)"
  by (induction n) simp_all

lemma items_typed:
  assumes "list_all is_line_item xs" and "marker p"
  shows "\<exists>itemsHtml. itemsHtml_of (JArr xs) = Some itemsHtml \<and> inert p itemsHtml"
proof -
  have "list_all is_line_item (take 5 xs)"
    using assms(1) by (auto simp: list_all_iff dest: in_set_takeD)
  from rows_of_items [OF this] obtain rows
    where rows: "sequence (map item_row (take 5 xs)) = Some rows"
    \<open>list_all2 (\<lambda>item r. \<exists>qty title. toString (shown_quantity item) = Some qty
             \<and> toString (shown_title item) = Some title
             \<and> r = row_html qty (escape_text title)
             \<and> CHR ''<'' \<notin> set qty) (take 5 xs) rows\<close>
    by blast
  have "list_all (inert p) rows"
    using rows_plain [OF rows(2)] inert_row_html [OF assms(2)] by (auto simp: list_all_iff)
  then have "inert p (concat rows)"
    by (rule inert_concat)
  then show ?thesis
    by (simp add: itemsHtml_of_def rows(1))
qed

lemma generate_A_blocks:
  assumes order: "is_order order" and name: "order_name order = JStr s"
    and copies: "0 \<le> copies" "copies < 2 ^ 32"
  shows \<open>\<exists>block. generateThermalLabelHtml_A now order copies
           = Some (document_A (escape_text s) (join page_break (replicate (nat copies) block)))
       \<and> count_infix ''<div class="label">'' block = 1
       \<and> count_infix page_break block = 0
       \<and> count_infix ''<div class="label">''
            (document_A (escape_text s) (join page_break (replicate (nat copies) block))) = nat copies
       \<and> count_infix page_break
            (document_A (escape_text s) (join page_break (replicate (nat copies) block))) = nat copies - 1\<close>
proof -
  from order have sa: "is_address (shippingAddress order)"
    by (simp add: is_order_def)
  then have sa': "js_or (shippingAddress order) (JObj []) = shippingAddress order"
    by (cases "shippingAddress order") (simp_all add: is_address_def js_or_def)
  from order obtain xs where xs: "lineItems order = JArr xs" "list_all is_line_item xs"
    by (cases "lineItems order") (simp_all add: is_order_def)
  have li': "js_or (lineItems order) (JArr []) = JArr xs"
    by (simp add: xs js_or_def)
  have m1: \<open>marker ''<div class="label">''\<close> and m2: "marker page_break"
    by (simp_all add: marker_def)
  obtain itemsHtml where itemsHtml: "itemsHtml_of (JArr xs) = Some itemsHtml"
    and items1: \<open>inert ''<div class="label">'' itemsHtml\<close> and items2: "inert page_break itemsHtml"
    using items_typed [OF xs(2) m1] items_typed [OF xs(2) m2] by auto
  let ?more = "moreItemsHtml_of xs"
  obtain block where block:
      "label_block order (shippingAddress order) (toLocaleDateString now) itemsHtml ?more = Some block"
    and b1: \<open>count_infix ''<div class="label">'' block = 1\<close> \<open>\<not> overlap ''<div class="label">'' block\<close>
    using label_block_typed [OF sa name m1 items1 inert_more_items [OF m1], of now xs] by auto
  have b2: "count_infix page_break block = 0" "\<not> overlap page_break block"
    using label_block_typed [OF sa name m2 items2 inert_more_items [OF m2], of now xs] block
    by (auto simp: page_break_def)
  have title: "escapeHtml (order_name order) = Some (escape_text s)"
    by (simp add: name escapeHtml_text)
  have slots: "Array_of copies = Some (replicate (nat copies) ())"
    using copies by (simp add: Array_of_def)
  let ?html = "document_A (escape_text s) (join page_break (replicate (nat copies) block))"
  have html: "generateThermalLabelHtml_A now order copies = Some ?html"
    by (simp add: generateThermalLabelHtml_A_def sa' li' itemsHtml slots block title
        sequence_replicate map_replicate_const)
  have sep1: \<open>\<not> overlap ''<div class="label">'' page_break\<close> \<open>count_infix ''<div class="label">'' page_break = 0\<close>
    and sep2: "\<not> overlap page_break page_break" "count_infix page_break page_break = 1"
    by (simp_all add: page_break_def)
  note j1 = join_replicate [OF b1(2) sep1(1), of "nat copies"]
  note j2 = join_replicate [OF b2(2) sep2(1), of "nat copies"]
  have c1: \<open>count_infix ''<div class="label">'' ?html = nat copies\<close>
    using document_A_marker [OF m1 inert_escapeHtml [OF m1 title]] j1 b1(1) sep1(2) by simp
  have c2: \<open>count_infix page_break ?html = nat copies - 1\<close>
    using document_A_marker [OF m2 inert_escapeHtml [OF m2 title]] j2 b2(1) sep2(2) by simp
  from html b1(1) b2(1) c1 c2 show ?thesis by blast
qed

lemma order_name_text: "is_order order \<Longrightarrow> \<exists>s. order_name order = JStr s"
  by (cases "order_name order") (simp_all add: is_order_def)

lemma generate_A_typed:
  assumes order: "is_order order" and copies: "0 \<le> copies" "copies < 2 ^ 32"
  shows \<open>\<exists>html. generateThermalLabelHtml_A now order copies = Some html
       \<and> count_infix ''<div class="label">'' html = nat copies
       \<and> count_infix page_break html = nat copies - 1\<close>
proof -
  from order_name_text [OF order] obtain s where "order_name order = JStr s" ..
  from generate_A_blocks [OF order this copies, of now] show ?thesis
    by blast
qed

section \<open>The handler of the generic label server\<close>

lemma build_order_name: "order_name (build_order req) = js_or (orderName req) (JStr ''Order'')"
  by (simp add: build_order_def split: prod.splits)

lemma reply_print_A:
  "reply (print_A now req) =
     Option.bind (copies_of (labelCount req))
       (\<lambda>copies. map_option send_html (generateThermalLabelHtml_A now (build_order req) copies))"
  by (cases "copies_of (labelCount req)")
     (simp_all add: print_A_def map_option_case split: option.splits)

lemma parseInt_zero: "parseInt (JStr ''0'') = Some (Some 0)"
  by (simp add: parseInt_def parseInt_text_def is_white_space_def digit_value_def Let_def)

lemma copies_of_default:
  assumes "count = JUndefined \<or> count = JStr ''0'' \<or> parseInt count = Some None"
  shows "copies_of count = Some 1"
  using assms
proof (elim disjE)
  assume "count = JUndefined"
  then show ?thesis
    by (simp add: copies_of_def parseInt_def number_toString_one parseInt_text_def
        is_white_space_def digit_value_def Let_def)
next
  assume "count = JStr ''0''"
  then show ?thesis
    by (simp add: copies_of_def parseInt_zero)
next
  assume nan: "parseInt count = Some None"
  show ?thesis
  proof (cases "count = JUndefined")
    case True
    then show ?thesis
      by (simp add: copies_of_def parseInt_def number_toString_one parseInt_text_def
          is_white_space_def digit_value_def Let_def)
  next
    case False
    then have "(case count of JUndefined \<Rightarrow> JNum 1 | v \<Rightarrow> v) = count"
      by (cases count) simp_all
    with nan show ?thesis
      by (simp add: copies_of_def)
  qed
qed




lemma items_empty: "itemsHtml_of (JArr []) = Some []"
  by (simp add: itemsHtml_of_def)

lemma build_order_parts:
  "parse_query req = (logged, sa, li) \<Longrightarrow>
     shippingAddress (build_order req) = sa \<and> lineItems (build_order req) = li"
  by (simp add: build_order_def)

text \<open>
  Claim C9. The two parameters are parsed in one \<^verbatim>\<open>try\<close> block, the address first.
  When the address is present and malformed, the line items are not parsed and render
  empty, whatever the parameter holds, valid JSON included. When the address parses and
  the line items are malformed, the parsed address is kept and not reset to the empty object.
  Either way one error is logged.
\<close>

theorem C9_single_try:
  "(shippingAddress_param req = Malformed \<longrightarrow>
      parse_query req = ([''Error parsing query params:''], JObj [], JArr [])
      \<and> parse_query (req\<lparr>lineItems_param := Parsed w\<rparr>) = parse_query req
      \<and> shippingAddress (build_order req) = JObj []
      \<and> lineItems (build_order req) = JArr []
      \<and> console (print_A now req) = [''Error parsing query params:''])
   \<and> (shippingAddress_param req = Parsed v \<and> lineItems_param req = Malformed \<longrightarrow>
      parse_query req = ([''Error parsing query params:''], v, JArr [])
      \<and> shippingAddress (build_order req) = v
      \<and> lineItems (build_order req) = JArr []
      \<and> console (print_A now req) = [''Error parsing query params:''])
   \<and> itemsHtml_of (JArr []) = Some [] \<and> moreItemsHtml_of [] = []"
proof -
  have 1: "parse_query req = ([''Error parsing query params:''], JObj [], JArr [])"
    "parse_query (req\<lparr>lineItems_param := Parsed w\<rparr>) = parse_query req"
    if "shippingAddress_param req = Malformed"
    using that by (simp_all add: parse_query_def)
  have 2: "parse_query req = ([''Error parsing query params:''], v, JArr [])"
    if "shippingAddress_param req = Parsed v" "lineItems_param req = Malformed"
    using that by (simp add: parse_query_def)
  have 3: "moreItemsHtml_of [] = []"
    by (simp add: moreItemsHtml_of_def)
  show ?thesis
    using 1 2 3 items_empty build_order_parts [of req]
    by (simp add: print_A_def)
qed

theorem C9_single_try_witness:
  "shippingAddress_param \<lparr>orderId = JUndefined, orderName = JUndefined, labelCount = JUndefined,
       shippingAddress_param = Malformed,
       lineItems_param = Parsed (JArr [JObj [(''title'', JStr ''Mug'')]])\<rparr> = Malformed
   \<and> lineItems (build_order \<lparr>orderId = JUndefined, orderName = JUndefined, labelCount = JUndefined,
       shippingAddress_param = Malformed,
       lineItems_param = Parsed (JArr [JObj [(''title'', JStr ''Mug'')]])\<rparr>) = JArr []
   \<and> shippingAddress_param \<lparr>orderId = JUndefined, orderName = JUndefined, labelCount = JUndefined,
       shippingAddress_param = Parsed (JObj [(''city'', JStr ''Ottawa'')]),
       lineItems_param = Malformed\<rparr> = Parsed (JObj [(''city'', JStr ''Ottawa'')])
   \<and> lineItems_param \<lparr>orderId = JUndefined, orderName = JUndefined, labelCount = JUndefined,
       shippingAddress_param = Parsed (JObj [(''city'', JStr ''Ottawa'')]),
       lineItems_param = Malformed\<rparr> = Malformed
   \<and> shippingAddress (build_order \<lparr>orderId = JUndefined, orderName = JUndefined,
       labelCount = JUndefined,
       shippingAddress_param = Parsed (JObj [(''city'', JStr ''Ottawa'')]),
       lineItems_param = Malformed\<rparr>) = JObj [(''city'', JStr ''Ottawa'')]"
proof -
  let ?r1 = "\<lparr>orderId = JUndefined, orderName = JUndefined, labelCount = JUndefined,
       shippingAddress_param = Malformed,
       lineItems_param = Parsed (JArr [JObj [(''title'', JStr ''Mug'')]])\<rparr>"
  let ?r2 = "\<lparr>orderId = JUndefined, orderName = JUndefined, labelCount = JUndefined,
       shippingAddress_param = Parsed (JObj [(''city'', JStr ''Ottawa'')]),
       lineItems_param = Malformed\<rparr>"
  have a: "shippingAddress_param ?r1 = Malformed"
    and b: "shippingAddress_param ?r2 = Parsed (JObj [(''city'', JStr ''Ottawa'')])"
    and c: "lineItems_param ?r2 = Malformed"
    by simp_all
  from C9_single_try [where req = ?r1] a have 1: "lineItems (build_order ?r1) = JArr []"
    by blast
  from C9_single_try [where req = ?r2 and v = "JObj [(''city'', JStr ''Ottawa'')]"] b c
  have 2: "shippingAddress (build_order ?r2) = JObj [(''city'', JStr ''Ottawa'')]"
    by blast
  from a 1 b c 2 show ?thesis
    by (intro conjI)
qed

lemma print_A_typed:
  assumes "is_order (build_order req)" and "copies_of (labelCount req) = Some n"
    and "0 \<le> n" and "n < 2 ^ 32"
  shows \<open>http_status (print_A now req) = 200
       \<and> response_count ''<div class="label">'' (print_A now req) = nat n
       \<and> response_count page_break (print_A now req) = nat n - 1\<close>
proof -
  from generate_A_typed [OF assms(1,3,4), of now] obtain html
    where html: "generateThermalLabelHtml_A now (build_order req) n = Some html"
      \<open>count_infix ''<div class="label">'' html = nat n\<close> "count_infix page_break html = nat n - 1"
    by auto
  have r: "reply (print_A now req) = Some (send_html html)"
    by (simp add: reply_print_A assms(2) html(1))
  show ?thesis
    by (simp add: http_status_def response_count_def r html send_html_def)
qed

lemma parseInt_minus_one: "parseInt (JStr ''-1'') = Some (Some (- 1))"
  by (simp add: parseInt_def parseInt_text_def is_white_space_def digit_value_def Let_def)

lemma copies_absent: "copies_of JUndefined = Some 1"
  by (rule copies_of_default) simp

text \<open>
  Claim C2. A request whose address or line items are not valid JSON is logged and
  answered with status 200, and no request is answered with another status. The handler
  catches only the parsing: a negative \<^verbatim>\<open>labelCount\<close> (a RangeError in
  \<^verbatim>\<open>Array(copies)\<close>), line items that parse to a value that is not an array, and an order
  name that is not a string (both a TypeError) end the handler before it responds, with or
  without a malformed parameter, and the client receives status 500.
\<close>

theorem C2_status_500:
  "http_status (print_A now \<lparr>orderId = JUndefined, orderName = JUndefined, labelCount = JStr ''-1'',
       shippingAddress_param = Malformed, lineItems_param = Absent\<rparr>) = 500
   \<and> console (print_A now \<lparr>orderId = JUndefined, orderName = JUndefined, labelCount = JStr ''-1'',
       shippingAddress_param = Malformed, lineItems_param = Absent\<rparr>)
       = [''Error parsing query params:'']
   \<and> http_status (print_A now \<lparr>orderId = JUndefined, orderName = JUndefined,
       labelCount = JUndefined, shippingAddress_param = Absent,
       lineItems_param = Parsed (JNum 5)\<rparr>) = 500
   \<and> http_status (print_A now \<lparr>orderId = JUndefined, orderName = JArr [JStr ''a'', JStr ''b''],
       labelCount = JUndefined, shippingAddress_param = Malformed,
       lineItems_param = Absent\<rparr>) = 500"
proof -
  have 1: "http_status (print_A now \<lparr>orderId = JUndefined, orderName = JUndefined, labelCount = JStr ''-1'',
       shippingAddress_param = Malformed, lineItems_param = Absent\<rparr>) = 500"
    by (simp add: http_status_def reply_print_A copies_of_def parseInt_minus_one
        generateThermalLabelHtml_A_def build_order_def parse_query_def js_or_def items_empty
        Array_of_def)
  have 2: "console (print_A now \<lparr>orderId = JUndefined, orderName = JUndefined, labelCount = JStr ''-1'',
       shippingAddress_param = Malformed, lineItems_param = Absent\<rparr>)
       = [''Error parsing query params:'']"
    by (simp add: print_A_def parse_query_def)
  have 3: "http_status (print_A now \<lparr>orderId = JUndefined, orderName = JUndefined,
       labelCount = JUndefined, shippingAddress_param = Absent,
       lineItems_param = Parsed (JNum 5)\<rparr>) = 500"
    by (simp add: http_status_def reply_print_A copies_absent
        generateThermalLabelHtml_A_def build_order_def parse_query_def js_or_def
        itemsHtml_of_def)
  have bar: "generateBarcodeLines (JArr [JStr ''a'', JStr ''b'']) = None"
    by (simp add: generateBarcodeLines_def)
  have block: "label_block \<lparr>order_id = JUndefined, order_name = JArr [JStr ''a'', JStr ''b''],
        shippingAddress = JObj [], lineItems = JArr []\<rparr> (JObj []) date [] [] = None" for date
    by (simp add: label_block_def bar escapeHtml_def js_or_def field_def optional_div_def
        escape_text_def)
  have 4: "http_status (print_A now \<lparr>orderId = JUndefined, orderName = JArr [JStr ''a'', JStr ''b''],
       labelCount = JUndefined, shippingAddress_param = Malformed,
       lineItems_param = Absent\<rparr>) = 500"
    by (simp add: http_status_def reply_print_A copies_absent
        generateThermalLabelHtml_A_def build_order_def parse_query_def js_or_def items_empty
        Array_of_def moreItemsHtml_of_def block)
  from 1 2 3 4 show ?thesis
    by (intro conjI)
qed

section \<open>What the renderer depends on\<close>

lemma document_A_inject: "document_A title a = document_A title b \<longleftrightarrow> a = b"
  by (simp add: document_A_def)

lemma label_html_date:
  "label_html orderNumber date1 recipient company address1 address2 city province
      zipCode country phone itemsHtml moreItemsHtml barcode barcodeText
   = label_html orderNumber date2 recipient company address1 address2 city province
      zipCode country phone itemsHtml moreItemsHtml barcode barcodeText
   \<longleftrightarrow> date1 = date2"
  by (simp add: label_html_def)

lemma plain_order_html:
  "generateThermalLabelHtml_A now
     \<lparr>order_id = JUndefined, order_name = JStr ''A'', shippingAddress = JObj [], lineItems = JArr []\<rparr> 1
   = Some (document_A ''A''
       (label_html ''A'' (toLocaleDateString now) ''N/A'' [] [] [] [] [] [] [] [] [] []
          (concat (map (\<lambda>(x, w). rect x w) (bars_spec ''A''))) ''A''))"
  by (simp add: generateThermalLabelHtml_A_def js_or_def items_empty moreItemsHtml_of_def
      Array_of_def label_block_def escapeHtml_def escape_text_def field_def optional_div_def
      barcode_bars)

text \<open>
  Claim C8 as stated fails: the same order and copy count rendered on two days give two
  different documents.
\<close>

theorem C8_depends_on_date:
  "generateThermalLabelHtml_A \<lparr>year = 2026, month = Nov, day = 2, hours = 9, minutes = 30, seconds = 0\<rparr>
     \<lparr>order_id = JUndefined, order_name = JStr ''A'', shippingAddress = JObj [], lineItems = JArr []\<rparr> 1
   \<noteq> generateThermalLabelHtml_A \<lparr>year = 2026, month = Nov, day = 3, hours = 9, minutes = 30, seconds = 0\<rparr>
     \<lparr>order_id = JUndefined, order_name = JStr ''A'', shippingAddress = JObj [], lineItems = JArr []\<rparr> 1"
proof -
  have "toLocaleDateString \<lparr>year = 2026, month = Nov, day = 2, hours = 9, minutes = 30, seconds = 0\<rparr>
      \<noteq> toLocaleDateString \<lparr>year = 2026, month = Nov, day = 3, hours = 9, minutes = 30, seconds = 0\<rparr>"
    by (simp add: toLocaleDateString_def string_of_nat.simps digit_char_def)
  then show ?thesis
    by (simp only: plain_order_html option.inject document_A_inject label_html_date not_False_eq_True)
qed

subsection \<open>The date in the text\<close>

lemma string_of_nat_nonempty: "string_of_nat n \<noteq> []"
  using string_of_nat.simps [of n] by (cases "n < 10") simp_all

lemma digit_char_inject: "a < 10 \<Longrightarrow> b < 10 \<Longrightarrow> digit_char a = digit_char b \<Longrightarrow> a = b"
  unfolding digit_char_def by (simp add: nth_eq_iff_index_eq)

lemma string_of_nat_inject: "string_of_nat n = string_of_nat m \<Longrightarrow> n = m"
proof (induction n arbitrary: m rule: string_of_nat.induct)
  case (1 n)
  show ?case
  proof (cases "n < 10")
    case True
    then have n: "string_of_nat n = [digit_char n]"
      using string_of_nat.simps [of n] by simp
    have m: "m < 10"
    proof (rule ccontr)
      assume "\<not> m < 10"
      then have "string_of_nat m = string_of_nat (m div 10) @ [digit_char (m mod 10)]"
        using string_of_nat.simps [of m] by simp
      with "1.prems" n string_of_nat_nonempty [of "m div 10"] show False
        by simp
    qed
    then have "string_of_nat m = [digit_char m]"
      using string_of_nat.simps [of m] by simp
    with "1.prems" n have "digit_char n = digit_char m"
      by simp
    with True m show ?thesis
      by (rule digit_char_inject)
  next
    case False
    then have n: "string_of_nat n = string_of_nat (n div 10) @ [digit_char (n mod 10)]"
      using string_of_nat.simps [of n] by simp
    have m: "\<not> m < 10"
    proof
      assume "m < 10"
      then have "string_of_nat m = [digit_char m]"
        using string_of_nat.simps [of m] by simp
      with "1.prems" n string_of_nat_nonempty [of "n div 10"] show False
        by simp
    qed
    then have "string_of_nat m = string_of_nat (m div 10) @ [digit_char (m mod 10)]"
      using string_of_nat.simps [of m] by simp
    with "1.prems" n have tens: "string_of_nat (n div 10) = string_of_nat (m div 10)"
      and units: "digit_char (n mod 10) = digit_char (m mod 10)"
      by simp_all
    from "1.IH" [OF False tens] have "n div 10 = m div 10" .
    moreover from units have "n mod 10 = m mod 10"
      by (rule digit_char_inject [rotated 2]) simp_all
    ultimately show ?thesis
      by (metis div_mult_mod_eq)
  qed
qed

lemma delimited:
  assumes "a @ c # r = b @ c # s" and "c \<notin> set a" and "c \<notin> set b"
  shows "a = b \<and> r = s"
  using assms
proof (induction a arbitrary: b)
  case Nil
  then show ?case by (cases b) auto
next
  case (Cons x a)
  then show ?case by (cases b) auto
qed

lemma delimited_iff:
  assumes "c \<notin> set a" and "c \<notin> set b"
  shows "a @ c # r = b @ c # s \<longleftrightarrow> a = b \<and> r = s"
  using delimited [OF _ assms] by auto

lemma month_short_inject: "month_short a = month_short b \<Longrightarrow> a = b"
  by (cases a; cases b) simp_all

lemma month_short_length: "length (month_short a) = 3"
  by (cases a) simp_all

lemma date_inject:
  "toLocaleDateString t1 = toLocaleDateString t2
     \<longleftrightarrow> year t1 = year t2 \<and> month t1 = month t2 \<and> day t1 = day t2"
proof
  assume eq: "toLocaleDateString t1 = toLocaleDateString t2"
  let ?rest = "\<lambda>t. CHR '' '' # string_of_nat (day t) @ CHR '','' # CHR '' '' # string_of_nat (year t)"
  from eq have "month_short (month t1) @ ?rest t1 = month_short (month t2) @ ?rest t2"
    by (simp add: toLocaleDateString_def)
  then have names: "month_short (month t1) = month_short (month t2)" and rest: "?rest t1 = ?rest t2"
    by (simp_all add: append_eq_append_conv month_short_length)
  have comma: "CHR '','' \<notin> set (string_of_nat n)" for n
    by (rule string_of_nat_not) simp
  from rest have "string_of_nat (day t1) @ CHR '','' # CHR '' '' # string_of_nat (year t1)
      = string_of_nat (day t2) @ CHR '','' # CHR '' '' # string_of_nat (year t2)"
    by simp
  from delimited [OF this comma comma]
  have "string_of_nat (day t1) = string_of_nat (day t2)" "string_of_nat (year t1) = string_of_nat (year t2)"
    by simp_all
  then have "day t1 = day t2" "year t1 = year t2"
    by (simp_all add: string_of_nat_inject)
  with month_short_inject [OF names]
  show "year t1 = year t2 \<and> month t1 = month t2 \<and> day t1 = day t2"
    by simp
next
  assume "year t1 = year t2 \<and> month t1 = month t2 \<and> day t1 = day t2"
  then show "toLocaleDateString t1 = toLocaleDateString t2"
    by (simp add: toLocaleDateString_def)
qed

subsection \<open>The labels of the generic server\<close>

lemma join_length:
  "length (join sep (replicate n a)) = n * length a + (n - 1) * length sep"
proof (induction n)
  case 0
  then show ?case by simp
next
  case (Suc n)
  then show ?case by (cases n) simp_all
qed

lemma join_first: "\<exists>rest. join sep (replicate (Suc n) a) = a @ rest"
  by (cases n) simp_all

lemma join_replicate_inject:
  assumes "join sep (replicate n a) = join sep (replicate n b)" and "0 < n"
  shows "a = b"
proof -
  from assms(2) obtain k where n: "n = Suc k"
    by (cases n) simp_all
  from assms(1) have "length (join sep (replicate n a)) = length (join sep (replicate n b))"
    by simp
  then have len: "length a = length b"
    using assms(2) by (simp add: join_length)
  from join_first [of sep k a] join_first [of sep k b]
  obtain ra rb where "join sep (replicate n a) = a @ ra" "join sep (replicate n b) = b @ rb"
    unfolding n by blast
  with assms(1) have "a @ ra = b @ rb"
    by simp
  with len show ?thesis
    by simp
qed

lemma label_block_date:
  assumes "label_block order sa date1 itemsHtml moreItemsHtml = Some block"
  shows "\<exists>label. (\<forall>date. label_block order sa date itemsHtml moreItemsHtml = Some (label date))
       \<and> (\<forall>a b. label a = label b \<longrightarrow> a = b)"
  using assms [unfolded label_block_def bind_eq_Some_conv]
proof (elim exE conjE)
  fix orderNumber name1 recipient company1 company street1 address1 street2 address2 city1 city
    provinceCode1 province1 province zip1 zipCode country1 country phone1 phone barcode barcodeText
  assume parts: "escapeHtml (order_name order) = Some orderNumber"
    "get_prop sa ''name'' = Some name1"
    "escapeHtml (js_or name1 (JStr ''N/A'')) = Some recipient"
    "get_prop sa ''company'' = Some company1"
    \<open>optional_div ''<div class="company">'' company1 = Some company\<close>
    "get_prop sa ''address1'' = Some street1"
    "escapeHtml (js_or street1 (JStr [])) = Some address1"
    "get_prop sa ''address2'' = Some street2"
    \<open>optional_div ''<div class="street">'' street2 = Some address2\<close>
    "get_prop sa ''city'' = Some city1"
    "escapeHtml (js_or city1 (JStr [])) = Some city"
    "get_prop sa ''provinceCode'' = Some provinceCode1"
    "get_prop sa ''province'' = Some province1"
    "escapeHtml (js_or provinceCode1 (js_or province1 (JStr []))) = Some province"
    "get_prop sa ''zip'' = Some zip1"
    "escapeHtml (js_or zip1 (JStr [])) = Some zipCode"
    "get_prop sa ''country'' = Some country1"
    "escapeHtml (js_or country1 (JStr [])) = Some country"
    "get_prop sa ''phone'' = Some phone1"
    \<open>optional_div ''<div class="phone">Tel: '' phone1 = Some phone\<close>
    "generateBarcodeLines (order_name order) = Some barcode"
    "escapeHtml (order_name order) = Some barcodeText"
  let ?label = "\<lambda>date. label_html orderNumber date recipient company address1 address2 city
      province zipCode country phone itemsHtml moreItemsHtml barcode barcodeText"
  from parts have same: "barcodeText = orderNumber"
    by simp
  have block: "label_block order sa date itemsHtml moreItemsHtml = Some (?label date)" for date
    unfolding label_block_def by (simp add: parts same)
  have inject: "?label a = ?label b \<longrightarrow> a = b" for a b
    by (simp add: label_html_date)
  show ?thesis
  proof (rule exI [of _ ?label])
    from block inject
    show "(\<forall>date. label_block order sa date itemsHtml moreItemsHtml = Some (?label date))
       \<and> (\<forall>a b. ?label a = ?label b \<longrightarrow> a = b)"
      by blast
  qed
qed

lemma replicate_Some:
  assumes "sequence (replicate n x) = Some ys" and "0 < n"
  shows "\<exists>y. x = Some y"
proof -
  from assms(1) have "replicate n x = map Some ys"
    by (simp add: sequence_Some)
  then have "replicate n x ! 0 = map Some ys ! 0" "length ys = n"
    by (simp_all, metis length_map length_replicate)
  with assms(2) show ?thesis
    by simp
qed

lemma generate_A_date:
  assumes "generateThermalLabelHtml_A t1 order copies = Some html"
  shows "0 \<le> copies \<and> (\<exists>title label.
      (\<forall>t. generateThermalLabelHtml_A t order copies
          = Some (document_A title (join page_break (replicate (nat copies) (label (toLocaleDateString t))))))
      \<and> (\<forall>a b. label a = label b \<longrightarrow> a = b))"
proof -
  let ?sa = "js_or (shippingAddress order) (JObj [])"
  let ?li = "js_or (lineItems order) (JArr [])"
  let ?more = "case ?li of JArr xs \<Rightarrow> moreItemsHtml_of xs | _ \<Rightarrow> []"
  from assms obtain itemsHtml slots labels title
    where items: "itemsHtml_of ?li = Some itemsHtml"
      and slots: "Array_of copies = Some slots"
      and labels: "sequence (map (\<lambda>slot. label_block order ?sa (toLocaleDateString t1) itemsHtml ?more) slots)
          = Some labels"
      and title: "escapeHtml (order_name order) = Some title"
    by (auto simp: generateThermalLabelHtml_A_def bind_eq_Some_conv Let_def)
  from slots have copies: "0 \<le> copies" and slots': "slots = replicate (nat copies) ()"
    by (simp_all add: Array_of_def split: if_splits)
  show ?thesis
  proof (cases "0 < nat copies")
    case False
    have plain: "generateThermalLabelHtml_A t order copies
        = Some (document_A title (join page_break (replicate (nat copies) (id (toLocaleDateString t)))))" for t
      using False by (simp add: generateThermalLabelHtml_A_def items slots slots' title)
    have "\<exists>label. (\<forall>t. generateThermalLabelHtml_A t order copies
          = Some (document_A title (join page_break (replicate (nat copies) (label (toLocaleDateString t))))))
      \<and> (\<forall>a b. label a = label b \<longrightarrow> a = b)"
    proof (rule exI [of _ id])
      from plain
      show "(\<forall>t. generateThermalLabelHtml_A t order copies
          = Some (document_A title (join page_break (replicate (nat copies) (id (toLocaleDateString t))))))
        \<and> (\<forall>a b. id a = id b \<longrightarrow> a = (b::string))"
        by simp
    qed
    with copies show ?thesis
      by blast
  next
    case True
    from labels have "sequence (replicate (nat copies)
        (label_block order ?sa (toLocaleDateString t1) itemsHtml ?more)) = Some labels"
      by (simp add: slots' map_replicate_const)
    from replicate_Some [OF this True] obtain block
      where "label_block order ?sa (toLocaleDateString t1) itemsHtml ?more = Some block" ..
    from label_block_date [OF this] obtain label
      where label: "\<And>date. label_block order ?sa date itemsHtml ?more = Some (label date)"
        and inject: "\<forall>a b. label a = label b \<longrightarrow> a = b"
      by blast
    have "generateThermalLabelHtml_A t order copies
        = Some (document_A title (join page_break (replicate (nat copies) (label (toLocaleDateString t)))))" for t
      by (simp add: generateThermalLabelHtml_A_def items slots slots' title map_replicate_const
          sequence_replicate label)
    with inject copies show ?thesis
      by blast
  qed
qed

subsection \<open>The document of the branded server\<close>

lemma base64_char_quote: "base64_char n \<noteq> CHR 0x22"
proof -
  have "base64_alphabet ! (n mod 64) \<in> set base64_alphabet"
    by (rule nth_mem) (simp add: base64_alphabet_def)
  moreover have "CHR 0x22 \<notin> set base64_alphabet"
    by (simp add: base64_alphabet_def)
  ultimately show ?thesis
    unfolding base64_char_def by metis
qed

lemma base64_quote: "CHR 0x22 \<notin> set (base64 bytes)"
  by (induction bytes rule: base64.induct) (simp_all add: base64_char_quote [symmetric])

lemma load_logo_quote: "CHR 0x22 \<notin> set (load_logo logo_file)"
  by (cases logo_file) (simp_all add: load_logo_def base64_quote)

lemma document_B_inject:
  assumes "CHR 0x22 \<notin> set logo1" and "CHR 0x22 \<notin> set logo2"
  shows "document_B title customerName logo1 date1 orderNumber
       = document_B title customerName logo2 date2 orderNumber
     \<longleftrightarrow> logo1 = logo2 \<and> date1 = date2"
  by (simp add: document_B_def document_before_date_B_def delimited_iff [OF assms])

lemma generate_B_date:
  assumes "generateThermalLabelHtml_B logo1 t1 order = Some html"
  shows "\<exists>title customerName orderNumber. \<forall>logo t. generateThermalLabelHtml_B logo t order
      = Some (document_B title customerName logo (toLocaleDateString t) orderNumber)"
proof -
  from assms obtain firstName title upper customerName orderNumber
    where parts: "firstName_of (js_or (shippingAddress order) (JObj [])) = Some firstName"
      "escapeHtml (order_name order) = Some title"
      "call_toUpperCase firstName = Some upper"
      "escapeHtml upper = Some customerName"
      "escapeHtml (order_name order) = Some orderNumber"
    by (auto simp: generateThermalLabelHtml_B_def bind_eq_Some_conv Let_def)
  from parts have same: "orderNumber = title"
    by simp
  have "\<forall>logo t. generateThermalLabelHtml_B logo t order
      = Some (document_B title customerName logo (toLocaleDateString t) orderNumber)"
    by (simp add: generateThermalLabelHtml_B_def parts same)
  then show ?thesis
    by blast
qed

text \<open>
  Claim C8, amended. Of the ambient state the renderer reads the calendar day of the call,
  and the branded one the logo of the process, and nothing else. Two calls for the same
  order and copy count end in the same way, with the same HTML or both with an exception,
  exactly when the renderer throws for this order, or they fall on the same calendar day
  (in the branded server: on the same day and with the same logo), or, in the generic
  server, the copy count is 0: no label is rendered then, and no date.
\<close>

theorem C8_same_day_only:
  "(generateThermalLabelHtml_A t1 order copies = generateThermalLabelHtml_A t2 order copies
      \<longleftrightarrow> generateThermalLabelHtml_A t1 order copies = None \<or> copies = 0
          \<or> (year t1 = year t2 \<and> month t1 = month t2 \<and> day t1 = day t2))
   \<and> (generateThermalLabelHtml_B (load_logo logo_file1) t1 order
        = generateThermalLabelHtml_B (load_logo logo_file2) t2 order
      \<longleftrightarrow> generateThermalLabelHtml_B (load_logo logo_file1) t1 order = None
          \<or> (load_logo logo_file1 = load_logo logo_file2
              \<and> year t1 = year t2 \<and> month t1 = month t2 \<and> day t1 = day t2))"
proof (rule conjI)
  show "generateThermalLabelHtml_A t1 order copies = generateThermalLabelHtml_A t2 order copies
      \<longleftrightarrow> generateThermalLabelHtml_A t1 order copies = None \<or> copies = 0
          \<or> (year t1 = year t2 \<and> month t1 = month t2 \<and> day t1 = day t2)"
  proof (cases "generateThermalLabelHtml_A t1 order copies")
    case None
    have "generateThermalLabelHtml_A t2 order copies = None"
    proof (rule ccontr)
      assume "generateThermalLabelHtml_A t2 order copies \<noteq> None"
      then obtain html where "generateThermalLabelHtml_A t2 order copies = Some html"
        by auto
      from generate_A_date [OF this] have "generateThermalLabelHtml_A t1 order copies \<noteq> None"
        by auto
      with None show False
        by simp
    qed
    with None show ?thesis
      by simp
  next
    case (Some html)
    from generate_A_date [OF Some] obtain title label
      where copies: "0 \<le> copies"
        and form: "\<And>t. generateThermalLabelHtml_A t order copies
          = Some (document_A title (join page_break (replicate (nat copies) (label (toLocaleDateString t)))))"
        and inject: "\<And>a b. label a = label b \<Longrightarrow> a = b"
      by blast
    have returns: "generateThermalLabelHtml_A t1 order copies \<noteq> None"
      by (simp add: form)
    show ?thesis
    proof (cases "copies = 0")
      case True
      have "generateThermalLabelHtml_A t1 order copies = generateThermalLabelHtml_A t2 order copies"
        unfolding form by (simp add: True)
      with True show ?thesis
        by simp
    next
      case False
      with copies have n: "0 < nat copies"
        by simp
      have "generateThermalLabelHtml_A t1 order copies = generateThermalLabelHtml_A t2 order copies
          \<longleftrightarrow> toLocaleDateString t1 = toLocaleDateString t2"
      proof
        assume "generateThermalLabelHtml_A t1 order copies = generateThermalLabelHtml_A t2 order copies"
        then have "join page_break (replicate (nat copies) (label (toLocaleDateString t1)))
            = join page_break (replicate (nat copies) (label (toLocaleDateString t2)))"
          by (simp add: form document_A_inject)
        from join_replicate_inject [OF this n] show "toLocaleDateString t1 = toLocaleDateString t2"
          by (rule inject)
      next
        assume "toLocaleDateString t1 = toLocaleDateString t2"
        then show "generateThermalLabelHtml_A t1 order copies = generateThermalLabelHtml_A t2 order copies"
          by (simp add: form)
      qed
      with False returns show ?thesis
        by (simp only: date_inject simp_thms)
    qed
  qed
next
  show "generateThermalLabelHtml_B (load_logo logo_file1) t1 order
        = generateThermalLabelHtml_B (load_logo logo_file2) t2 order
      \<longleftrightarrow> generateThermalLabelHtml_B (load_logo logo_file1) t1 order = None
          \<or> (load_logo logo_file1 = load_logo logo_file2
              \<and> year t1 = year t2 \<and> month t1 = month t2 \<and> day t1 = day t2)"
  proof (cases "generateThermalLabelHtml_B (load_logo logo_file1) t1 order")
    case None
    have "generateThermalLabelHtml_B (load_logo logo_file2) t2 order = None"
    proof (rule ccontr)
      assume "generateThermalLabelHtml_B (load_logo logo_file2) t2 order \<noteq> None"
      then obtain html where "generateThermalLabelHtml_B (load_logo logo_file2) t2 order = Some html"
        by auto
      from generate_B_date [OF this]
      have "generateThermalLabelHtml_B (load_logo logo_file1) t1 order \<noteq> None"
        by auto
      with None show False
        by simp
    qed
    with None show ?thesis
      by simp
  next
    case (Some html)
    from generate_B_date [OF Some] obtain title customerName orderNumber
      where form: "\<And>logo t. generateThermalLabelHtml_B logo t order
          = Some (document_B title customerName logo (toLocaleDateString t) orderNumber)"
      by blast
    show ?thesis
      by (simp add: form document_B_inject [OF load_logo_quote load_logo_quote] date_inject)
  qed
qed

theorem C8_same_day_only_witness:
  "generateThermalLabelHtml_A \<lparr>year = 2026, month = Nov, day = 2, hours = 9, minutes = 30, seconds = 0\<rparr>
       \<lparr>order_id = JUndefined, order_name = JStr ''A'', shippingAddress = JObj [], lineItems = JArr []\<rparr> 1
     = generateThermalLabelHtml_A \<lparr>year = 2026, month = Nov, day = 2, hours = 17, minutes = 45, seconds = 10\<rparr>
       \<lparr>order_id = JUndefined, order_name = JStr ''A'', shippingAddress = JObj [], lineItems = JArr []\<rparr> 1
   \<and> generateThermalLabelHtml_A \<lparr>year = 2026, month = Nov, day = 2, hours = 9, minutes = 30, seconds = 0\<rparr>
       \<lparr>order_id = JUndefined, order_name = JStr ''A'', shippingAddress = JObj [], lineItems = JArr []\<rparr> 1
     \<noteq> None
   \<and> generateThermalLabelHtml_B (load_logo (Some ''PNG''))
       \<lparr>year = 2026, month = Nov, day = 2, hours = 9, minutes = 30, seconds = 0\<rparr>
       \<lparr>order_id = JUndefined, order_name = JStr ''A'', shippingAddress = JObj [], lineItems = JArr []\<rparr>
     = generateThermalLabelHtml_B (load_logo (Some ''PNG''))
       \<lparr>year = 2026, month = Nov, day = 2, hours = 17, minutes = 45, seconds = 10\<rparr>
       \<lparr>order_id = JUndefined, order_name = JStr ''A'', shippingAddress = JObj [], lineItems = JArr []\<rparr>"
proof -
  let ?t1 = "\<lparr>year = 2026, month = Nov, day = 2, hours = 9, minutes = 30, seconds = 0\<rparr>"
  let ?t2 = "\<lparr>year = 2026, month = Nov, day = 2, hours = 17, minutes = 45, seconds = 10\<rparr>"
  let ?order = "\<lparr>order_id = JUndefined, order_name = JStr ''A'', shippingAddress = JObj [], lineItems = JArr []\<rparr>"
  note c = C8_same_day_only [of ?t1 ?order 1 ?t2 "Some ''PNG''" "Some ''PNG''"]
  from c have 1: "generateThermalLabelHtml_A ?t1 ?order 1 = generateThermalLabelHtml_A ?t2 ?order 1"
    by simp
  have 2: "generateThermalLabelHtml_A ?t1 ?order 1 \<noteq> None"
    by (simp add: plain_order_html)
  from c have 3: "generateThermalLabelHtml_B (load_logo (Some ''PNG'')) ?t1 ?order
      = generateThermalLabelHtml_B (load_logo (Some ''PNG'')) ?t2 ?order"
    by simp
  from 1 2 3 show ?thesis
    by (intro conjI)
qed

section \<open>The example request\<close>

lemma parseInt_two: "parseInt (JStr ''2'') = Some (Some 2)"
  by (simp add: parseInt_def parseInt_text_def is_white_space_def digit_value_def Let_def)

lemma example_order:
  "build_order example_request =
     \<lparr>order_id = JUndefined, order_name = JStr ''#1001'',
      shippingAddress = JObj [(''name'', JStr ''Jane Doe''), (''city'', JStr ''Ottawa'')],
      lineItems = JArr []\<rparr>"
  by (simp add: build_order_def example_request_def parse_query_def js_or_def)

lemma example_typed: "is_order (build_order example_request)"
  by (simp add: example_order is_order_def is_address_def address_fields_def field_def is_text_def)

lemma example_copies: "copies_of (labelCount example_request) = Some 2"
  by (simp add: example_request_def copies_of_def parseInt_two)

lemma example_block:
  "label_block (build_order example_request)
     (JObj [(''name'', JStr ''Jane Doe''), (''city'', JStr ''Ottawa'')]) date [] []
   = Some (label_html ''#1001'' date ''Jane Doe'' [] [] [] ''Ottawa'' [] [] [] [] [] []
       (concat (map (\<lambda>(x, w). rect x w) (bars_spec ''#1001''))) ''#1001'')"
  by (simp add: example_order label_block_def escapeHtml_def escape_text_def field_def js_or_def
      optional_div_def barcode_bars)

lemma example_html:
  "generateThermalLabelHtml_A now (build_order example_request) 2
   = Some (document_A ''#1001''
       (label_html ''#1001'' (toLocaleDateString now) ''Jane Doe'' [] [] [] ''Ottawa'' [] [] [] [] [] []
          (concat (map (\<lambda>(x, w). rect x w) (bars_spec ''#1001''))) ''#1001''
        @ page_break
        @ label_html ''#1001'' (toLocaleDateString now) ''Jane Doe'' [] [] [] ''Ottawa'' [] [] [] [] [] []
          (concat (map (\<lambda>(x, w). rect x w) (bars_spec ''#1001''))) ''#1001''))"
proof -
  have two: "replicate 2 b = [b, b]" for b :: string
    by (simp add: numeral_2_eq_2)
  have title: "escapeHtml (JStr ''#1001'') = Some ''#1001''"
    by (simp add: escapeHtml_def escape_text_def)
  show ?thesis
    using example_block [of "toLocaleDateString now"]
    by (simp add: generateThermalLabelHtml_A_def Array_of_def sequence_replicate two items_empty
        moreItemsHtml_of_def example_order js_or_def title)
qed

lemma example_reply:
  "reply (print_A now example_request)
   = Some (send_html (document_A ''#1001''
       (label_html ''#1001'' (toLocaleDateString now) ''Jane Doe'' [] [] [] ''Ottawa'' [] [] [] [] [] []
          (concat (map (\<lambda>(x, w). rect x w) (bars_spec ''#1001''))) ''#1001''
        @ page_break
        @ label_html ''#1001'' (toLocaleDateString now) ''Jane Doe'' [] [] [] ''Ottawa'' [] [] [] [] [] []
          (concat (map (\<lambda>(x, w). rect x w) (bars_spec ''#1001''))) ''#1001'')))"
  by (simp add: reply_print_A example_copies example_html)

lemma example_block_markers:
  \<open>count_infix ''<div class="label">''
     (label_html ''#1001'' (toLocaleDateString now) ''Jane Doe'' [] [] [] ''Ottawa'' [] [] [] [] [] []
        (concat (map (\<lambda>(x, w). rect x w) (bars_spec ''#1001''))) ''#1001'') = 1
   \<and> count_infix page_break
     (label_html ''#1001'' (toLocaleDateString now) ''Jane Doe'' [] [] [] ''Ottawa'' [] [] [] [] [] []
        (concat (map (\<lambda>(x, w). rect x w) (bars_spec ''#1001''))) ''#1001'') = 0\<close>
proof -
  have sa: "is_address (JObj [(''name'', JStr ''Jane Doe''), (''city'', JStr ''Ottawa'')])"
    by (simp add: is_address_def address_fields_def field_def is_text_def)
  have name: "order_name (build_order example_request) = JStr ''#1001''"
    by (simp add: example_order)
  have m1: \<open>marker ''<div class="label">''\<close> and m2: "marker page_break"
    by (simp_all add: marker_def)
  from label_block_typed [OF sa name m1 inert_Nil inert_Nil, of now]
    label_block_typed [OF sa name m2 inert_Nil inert_Nil, of now]
  show ?thesis
    by (simp add: example_block page_break_def)
qed

text \<open>
  Claim C7, amended. The example request is answered with status 200 and a document of
  exactly two label blocks, separated by one page break. The document holds the recipient
  as it was sent, \<^verbatim>\<open>Jane Doe\<close>, and the city \<^verbatim>\<open>Ottawa\<close>; the upper case of the recipient
  on paper is the work of the style sheet.
\<close>

theorem C7_example:
  \<open>http_status (print_A now example_request) = 200
   \<and> response_count ''<div class="label">'' (print_A now example_request) = 2
   \<and> response_count page_break (print_A now example_request) = 1
   \<and> (\<exists>block. reply (print_A now example_request)
          = Some (send_html (document_A ''#1001'' (block @ page_break @ block)))
        \<and> count_infix ''<div class="label">'' block = 1
        \<and> count_infix page_break block = 0)
   \<and> response_contains ''Jane Doe'' (print_A now example_request)
   \<and> response_contains ''Ottawa'' (print_A now example_request)\<close>
proof -
  let ?block = "label_html ''#1001'' (toLocaleDateString now) ''Jane Doe'' [] [] [] ''Ottawa''
      [] [] [] [] [] [] (concat (map (\<lambda>(x, w). rect x w) (bars_spec ''#1001''))) ''#1001''"
  have two: "(2::int) < 2 ^ 32" "(0::int) \<le> 2" "nat 2 = 2"
    by simp_all
  note counts = print_A_typed [OF example_typed example_copies two(2,1), of now]
  have blocks: \<open>\<exists>block. reply (print_A now example_request)
          = Some (send_html (document_A ''#1001'' (block @ page_break @ block)))
        \<and> count_infix ''<div class="label">'' block = 1
        \<and> count_infix page_break block = 0\<close>
    using example_reply [of now] example_block_markers [of now] by blast
  have inside: "sublist ?block (document_A ''#1001'' (?block @ page_break @ ?block))"
    by (rule sublist_chain [OF sublist_append_rightI sublist_document_A])
  have "sublist ''Jane Doe'' (document_A ''#1001'' (?block @ page_break @ ?block))"
    by (rule sublist_chain [OF sublist_label_recipient inside])
  then have jane: "response_contains ''Jane Doe'' (print_A now example_request)"
    by (simp add: response_contains_def example_reply send_html_def)
  have "sublist ''Ottawa'' (document_A ''#1001'' (?block @ page_break @ ?block))"
    by (rule sublist_chain [OF sublist_label_city inside])
  then have ottawa: "response_contains ''Ottawa'' (print_A now example_request)"
    by (simp add: response_contains_def example_reply send_html_def)
  from counts have c: "http_status (print_A now example_request) = 200"
    \<open>response_count ''<div class="label">'' (print_A now example_request) = 2\<close>
    "response_count page_break (print_A now example_request) = 1"
    by simp_all
  from c blocks jane ottawa show ?thesis
    by (intro conjI)
qed

lemma barcode_no_J: "inert ''JANE DOE'' (concat (map (\<lambda>(x, w). rect x w) bs))"
proof -
  have d: "CHR ''J'' \<notin> set (string_of_nat n)" for n
    by (rule string_of_nat_not) simp
  have "CHR ''J'' \<notin> set (rect x w)" for x w
    by (simp add: rect_def d)
  then have "inert ''JANE DOE'' (rect x w)" for x w
    using inert_absent [of "CHR ''J''" "rect x w" "''ANE DOE''"] by simp
  then have "list_all (inert ''JANE DOE'') (map (\<lambda>(x, w). rect x w) bs)"
    by (induction bs) auto
  then show ?thesis
    by (rule inert_concat)
qed

text \<open>
  Claim C7 as stated fails: on 2 November 2026 the document sent for the example request
  holds no \<^verbatim>\<open>JANE DOE\<close>.
\<close>

theorem C7_no_upper_case:
  "http_status (print_A \<lparr>year = 2026, month = Nov, day = 2, hours = 9, minutes = 30, seconds = 0\<rparr>
       example_request) = 200
   \<and> \<not> response_contains ''JANE DOE''
       (print_A \<lparr>year = 2026, month = Nov, day = 2, hours = 9, minutes = 30, seconds = 0\<rparr>
          example_request)"
proof -
  let ?now = "\<lparr>year = 2026, month = Nov, day = 2, hours = 9, minutes = 30, seconds = 0\<rparr>"
  let ?bars = "concat (map (\<lambda>(x, w). rect x w) (bars_spec ''#1001''))"
  let ?block = "label_html ''#1001'' ''Nov 2, 2026'' ''Jane Doe'' [] [] [] ''Ottawa''
      [] [] [] [] [] [] ?bars ''#1001''"
  have date: "toLocaleDateString ?now = ''Nov 2, 2026''"
    by (simp add: toLocaleDateString_def string_of_nat.simps digit_char_def)
  have block: "count_infix ''JANE DOE'' ?block = 0 \<and> \<not> overlap ''JANE DOE'' ?block"
    using concat_count [OF label_html_def, of "''JANE DOE''" "''#1001''" "''Nov 2, 2026''"
        "''Jane Doe''" "[]" "[]" "[]" "''Ottawa''" "[]" "[]" "[]" "[]" "[]" "[]" ?bars "''#1001''"]
      barcode_no_J [of "bars_spec ''#1001''"]
    by (simp add: inert_def)
  have sep: "count_infix ''JANE DOE'' page_break = 0 \<and> \<not> overlap ''JANE DOE'' page_break"
    by (simp add: page_break_def)
  have labels: "count_infix ''JANE DOE'' (?block @ page_break @ ?block) = 0
      \<and> \<not> overlap ''JANE DOE'' (?block @ page_break @ ?block)"
    using block sep by (simp add: count_infix_append overlap_append)
  have doc: "count_infix ''JANE DOE'' (document_A ''#1001'' (?block @ page_break @ ?block)) = 0"
    using concat_count [OF document_A_def, of "''JANE DOE''" "''#1001''" "?block @ page_break @ ?block"]
      labels
    by (simp add: document_head_def document_style_A_def document_tail_def)
  have "\<not> sublist ''JANE DOE'' (document_A ''#1001'' (?block @ page_break @ ?block))"
    using doc count_infix_sublist [of "''JANE DOE''" "document_A ''#1001'' (?block @ page_break @ ?block)"]
    by simp
  then have no: "\<not> response_contains ''JANE DOE'' (print_A ?now example_request)"
    using example_reply [of ?now] by (simp add: response_contains_def send_html_def date)
  have "http_status (print_A ?now example_request) = 200"
    using example_reply [of ?now] by (simp add: http_status_def send_html_def)
  with no show ?thesis
    by (intro conjI)
qed

section \<open>The quantity of a line item\<close>

lemma sublist_row_quantity: "sublist qty (row_html qty title)"
  unfolding row_html_def by (rule sublist_concat) simp

lemma plain_label:
  "label_block \<lparr>order_id = JUndefined, order_name = JStr ''Order'', shippingAddress = JObj [],
       lineItems = items\<rparr> (JObj []) date itemsHtml moreItemsHtml
   = Some (label_html ''Order'' date ''N/A'' [] [] [] [] [] [] [] [] itemsHtml moreItemsHtml
       (concat (map (\<lambda>(x, w). rect x w) (bars_spec ''Order''))) ''Order'')"
  by (simp add: label_block_def escapeHtml_def escape_text_def field_def js_or_def
      optional_div_def barcode_bars)

text \<open>
  Claim C1. Every user-supplied text is escaped before it is interpolated, so that the
  document holds the entity of each special character and never the raw character. The
  quantity of a line item is interpolated as it is: a quantity \<^verbatim>\<open><script>\<close> reaches the
  document raw, next to the title of the same item, which is escaped.
\<close>

theorem C1_quantity_raw:
  \<open>item_row (JObj [(''quantity'', JStr ''<script>''), (''title'', JStr ''<script>'')])
     = Some (row_html ''<script>'' ''&lt;script&gt;'')
   \<and> http_status (print_A now \<lparr>orderId = JUndefined, orderName = JUndefined,
        labelCount = JUndefined, shippingAddress_param = Absent,
        lineItems_param = Parsed (JArr [JObj [(''quantity'', JStr ''<script>''),
                                              (''title'', JStr ''<script>'')]])\<rparr>) = 200
   \<and> response_contains ''<script>'' (print_A now \<lparr>orderId = JUndefined, orderName = JUndefined,
        labelCount = JUndefined, shippingAddress_param = Absent,
        lineItems_param = Parsed (JArr [JObj [(''quantity'', JStr ''<script>''),
                                              (''title'', JStr ''<script>'')]])\<rparr>)\<close>
proof -
  let ?item = "JObj [(''quantity'', JStr ''<script>''), (''title'', JStr ''<script>'')]"
  let ?req = "\<lparr>orderId = JUndefined, orderName = JUndefined,
        labelCount = JUndefined, shippingAddress_param = Absent,
        lineItems_param = Parsed (JArr [?item])\<rparr>"
  let ?row = "row_html ''<script>'' ''&lt;script&gt;''"
  let ?block = "label_html ''Order'' (toLocaleDateString now) ''N/A'' [] [] [] [] [] [] [] [] ?row []
       (concat (map (\<lambda>(x, w). rect x w) (bars_spec ''Order''))) ''Order''"
  have row: "item_row ?item = Some ?row"
    by (simp add: item_row_def item_quantity_def item_title_def js_or_def escapeHtml_def
        escape_text_def field_def)
  have order: "build_order ?req = \<lparr>order_id = JUndefined, order_name = JStr ''Order'',
      shippingAddress = JObj [], lineItems = JArr [?item]\<rparr>"
    by (simp add: build_order_def parse_query_def js_or_def)
  have items: "itemsHtml_of (JArr [?item]) = Some ?row"
    by (simp add: itemsHtml_of_def row)
  have title: "escapeHtml (JStr ''Order'') = Some ''Order''"
    by (simp add: escapeHtml_def escape_text_def)
  have html: "generateThermalLabelHtml_A now (build_order ?req) 1 = Some (document_A ''Order'' ?block)"
    by (simp add: order generateThermalLabelHtml_A_def js_or_def items moreItemsHtml_of_def
        Array_of_def plain_label title)
  have reply: "reply (print_A now ?req) = Some (send_html (document_A ''Order'' ?block))"
    by (simp add: reply_print_A copies_absent html)
  have status: "http_status (print_A now ?req) = 200"
    by (simp add: http_status_def reply send_html_def)
  have "sublist ''<script>'' ?block"
    by (rule sublist_chain [OF sublist_row_quantity sublist_label_items])
  then have "sublist ''<script>'' (document_A ''Order'' ?block)"
    by (rule sublist_chain [OF _ sublist_document_A])
  then have raw: "response_contains ''<script>'' (print_A now ?req)"
    by (simp add: response_contains_def reply send_html_def)
  from row status raw show ?thesis
    by (intro conjI)
qed

section \<open>The branded label server\<close>

lemma base64_char_plain: "base64_char n \<noteq> CHR ''<''"
proof -
  have "base64_alphabet ! (n mod 64) \<in> set base64_alphabet"
    by (rule nth_mem) (simp add: base64_alphabet_def)
  moreover have "CHR ''<'' \<notin> set base64_alphabet"
    by (simp add: base64_alphabet_def)
  ultimately show ?thesis
    unfolding base64_char_def by metis
qed

lemma base64_plain: "CHR ''<'' \<notin> set (base64 bytes)"
  by (induction bytes rule: base64.induct) (simp_all add: base64_char_plain [symmetric])

lemma load_logo_plain: "CHR ''<'' \<notin> set (load_logo logo_file)"
  by (cases logo_file) (simp_all add: load_logo_def base64_plain)

lemma document_B_label:
  assumes \<open>list_all (inert ''<div class="label">'') [title, customerName, logoBase64, formattedDate, orderNumber]\<close>
  shows \<open>count_infix ''<div class="label">''
     (document_B title customerName logoBase64 formattedDate orderNumber) = 1\<close>
  using assms concat_count [OF document_B_def, of \<open>''<div class="label">''\<close> title customerName
      logoBase64 formattedDate orderNumber]
  by (simp add: inert_def document_head_def document_style_B_def document_before_logo_B_def
      document_before_date_B_def document_before_order_B_def document_footer_B_def)

lemma firstName_typed:
  assumes "is_address sa"
  shows "\<exists>s. firstName_of sa = Some (JStr s)"
proof -
  from address_field_text [OF assms] obtain kvs where kvs: "sa = JObj kvs"
    and fields: "\<And>k. k \<in> set address_fields \<Longrightarrow> is_text (field kvs k)"
    by blast
  have f: "is_text (field kvs ''firstName'')" "is_text (field kvs ''name'')"
    by (rule fields, simp add: address_fields_def)+
  show ?thesis
  proof (cases "truthy (field kvs ''firstName'')")
    case True
    with f(1) show ?thesis
      unfolding is_text_cases by (auto simp: kvs firstName_of_def)
  next
    case False
    with f(2) show ?thesis
      unfolding is_text_cases by (auto simp: kvs firstName_of_def)
  qed
qed

lemma generate_B_typed:
  assumes "is_order order"
  shows \<open>\<exists>html. generateThermalLabelHtml_B (load_logo logo_file) now order = Some html
       \<and> count_infix ''<div class="label">'' html = 1\<close>
proof -
  from order_name_text [OF assms] obtain s where name: "order_name order = JStr s" ..
  from assms have sa: "is_address (shippingAddress order)"
    by (simp add: is_order_def)
  then have sa': "js_or (shippingAddress order) (JObj []) = shippingAddress order"
    by (cases "shippingAddress order") (simp_all add: is_address_def js_or_def)
  from firstName_typed [OF sa] obtain f where f: "firstName_of (shippingAddress order) = Some (JStr f)" ..
  have m: \<open>marker ''<div class="label">''\<close>
    by (simp add: marker_def)
  have title: "escapeHtml (order_name order) = Some (escape_text s)"
    by (simp add: name escapeHtml_text)
  have customer: "escapeHtml (JStr (toUpperCase f)) = Some (escape_text (toUpperCase f))"
    by (rule escapeHtml_text)
  let ?html = "document_B (escape_text s) (escape_text (toUpperCase f)) (load_logo logo_file)
      (toLocaleDateString now) (escape_text s)"
  have html: "generateThermalLabelHtml_B (load_logo logo_file) now order = Some ?html"
    by (simp add: generateThermalLabelHtml_B_def sa' f call_toUpperCase_def title customer)
  have \<open>list_all (inert ''<div class="label">'')
      [escape_text s, escape_text (toUpperCase f), load_logo logo_file, toLocaleDateString now, escape_text s]\<close>
    using inert_escapeHtml [OF m title] inert_escapeHtml [OF m customer]
      inert_plain [OF m load_logo_plain [of logo_file]] inert_plain [OF m date_plain [of now]]
    by simp
  from document_B_label [OF this] html show ?thesis
    by simp
qed

lemma parse_query_count: "parse_query (req\<lparr>labelCount := count\<rparr>) = parse_query req"
  by (cases "shippingAddress_param req") (simp_all add: parse_query_def)

lemma build_order_count: "build_order (req\<lparr>labelCount := count\<rparr>) = build_order req"
  by (simp add: build_order_def parse_query_count)

lemma print_B_count: "print_B logoBase64 now (req\<lparr>labelCount := count\<rparr>) = print_B logoBase64 now req"
  by (simp add: print_B_def build_order_count parse_query_count)

text \<open>
  Claim C3. In the branded server the response holds exactly one label panel for every
  order of the data model, and \<^verbatim>\<open>labelCount\<close> is not read: whatever it is, absent, zero,
  negative, not a number or a positive integer, the response is the same.
\<close>

theorem C3_one_label:
  assumes "is_order (build_order req)"
  shows \<open>http_status (print_B (load_logo logo_file) now req) = 200
       \<and> response_count ''<div class="label">'' (print_B (load_logo logo_file) now req) = 1
       \<and> print_B (load_logo logo_file) now (req\<lparr>labelCount := count\<rparr>) = print_B (load_logo logo_file) now req\<close>
proof -
  from generate_B_typed [OF assms, of logo_file now] obtain html
    where html: "generateThermalLabelHtml_B (load_logo logo_file) now (build_order req) = Some html"
      \<open>count_infix ''<div class="label">'' html = 1\<close>
    by auto
  have r: "reply (print_B (load_logo logo_file) now req) = Some (send_html html)"
    by (simp add: print_B_def html(1))
  show ?thesis
    by (simp add: http_status_def response_count_def r html(2) send_html_def print_B_count)
qed

theorem C3_one_label_witness:
  \<open>is_order (build_order \<lparr>orderId = JUndefined, orderName = JStr ''#1001'', labelCount = JStr ''3'',
       shippingAddress_param = Parsed (JObj [(''name'', JStr ''Jane Doe'')]),
       lineItems_param = Absent\<rparr>)
   \<and> http_status (print_B (load_logo None)
        \<lparr>year = 2026, month = Nov, day = 2, hours = 9, minutes = 30, seconds = 0\<rparr>
        \<lparr>orderId = JUndefined, orderName = JStr ''#1001'', labelCount = JStr ''3'',
         shippingAddress_param = Parsed (JObj [(''name'', JStr ''Jane Doe'')]),
         lineItems_param = Absent\<rparr>) = 200
   \<and> response_count ''<div class="label">'' (print_B (load_logo None)
        \<lparr>year = 2026, month = Nov, day = 2, hours = 9, minutes = 30, seconds = 0\<rparr>
        \<lparr>orderId = JUndefined, orderName = JStr ''#1001'', labelCount = JStr ''3'',
         shippingAddress_param = Parsed (JObj [(''name'', JStr ''Jane Doe'')]),
         lineItems_param = Absent\<rparr>) = 1\<close>
proof -
  let ?req = "\<lparr>orderId = JUndefined, orderName = JStr ''#1001'', labelCount = JStr ''3'',
       shippingAddress_param = Parsed (JObj [(''name'', JStr ''Jane Doe'')]),
       lineItems_param = Absent\<rparr>"
  have typed: "is_order (build_order ?req)"
    by (simp add: is_order_def build_order_def parse_query_def js_or_def is_address_def
        address_fields_def field_def is_text_def)
  from C3_one_label [OF typed, of None] typed show ?thesis
    by (intro conjI) blast+
qed

section \<open>The item rows in the rendered label\<close>
















text \<open>An entry that is \<^verbatim>\<open>null\<close> has no row: reading its quantity throws a TypeError.\<close>

lemma item_row_null: "item_row JNull = None"
  by (simp add: item_row_def item_quantity_def)



end
